theory Spec2Isabelle
  imports Complex_Main "HOL-Library.Sublist" "HOL-Library.Product_Lexorder"
    "HOL-Library.List_Lexorder" "HOL-Library.Char_ord" "HOL-Library.AList"
begin

section \<open>Data model: cells, dtypes, tables\<close>

text \<open>
  A pandas table is modelled by its ordered schema (column name and dtype) and its rows
  in index order; a row gives the cell of every column. One value \<open>Null\<close> stands for
  every missing marker pandas knows (NaN, None, NaT): \<open>isna\<close> is true exactly of it.
  Numbers are reals, so an integer and the float of the same value are one cell.
\<close>

datatype cell = Null | Str string | Num real | Date int | Flag bool

datatype dtype = Object | Number | Datetime | Category | Boolean

datatype error = KeyError | AttributeError | TypeError | OverflowError | ZeroDivisionError

type_synonym row = "string \<Rightarrow> cell"

record dataframe =
  schema :: "(string \<times> dtype) list"
  rows :: "row list"

definition columns :: "dataframe \<Rightarrow> string list" where
  "columns df = map fst (schema df)"

definition column_values :: "dataframe \<Rightarrow> string \<Rightarrow> cell list" where
  "column_values df c = map (\<lambda>r. r c) (rows df)"

text \<open>
  Functions of the Python and pandas libraries that the repository calls on single
  values are parameters of the model: what they compute is not code of the repository.
\<close>

record pylib =
  str_lower :: "string \<Rightarrow> string"
  str_upper :: "string \<Rightarrow> string"
  str_strip :: "string \<Rightarrow> string"
  sub_nonword :: "string \<Rightarrow> string"
  sub_spaces :: "string \<Rightarrow> string"
  seq_ratio :: "string \<Rightarrow> string \<Rightarrow> real"
  to_datetime :: "cell \<Rightarrow> int option"
  year_of :: "int \<Rightarrow> int"
  to_numeric :: "cell \<Rightarrow> real option"
  py_str :: "cell \<Rightarrow> string"
  py_float :: "string \<Rightarrow> real option"

section \<open>Comparisons of pandas\<close>

text \<open>
  \<open>series == value\<close> is false on a missing cell; a boolean equals the number 1 or 0.
  \<open>series.isin(values)\<close> compares the same way, but a missing cell is a member of a
  list that holds a missing value.
\<close>

fun py_eq :: "cell \<Rightarrow> cell \<Rightarrow> bool" where
  "py_eq Null b = False"
| "py_eq a Null = False"
| "py_eq (Flag p) (Num x) = (x = (if p then 1 else 0))"
| "py_eq (Num x) (Flag p) = (x = (if p then 1 else 0))"
| "py_eq a b = (a = b)"

definition isin :: "cell \<Rightarrow> cell list \<Rightarrow> bool" where
  "isin c vs = list_ex (\<lambda>v. if c = Null then v = Null else py_eq c v) vs"

section \<open>SectorSimilarityDetector.apply\_unification\<close>

text \<open>
  \<open>series.replace(mapping)\<close> with a dict: a cell equal to a key becomes the key's value,
  every other cell stays.
\<close>

definition replace_dict :: "(cell \<times> cell) list \<Rightarrow> cell \<Rightarrow> cell" where
  "replace_dict m c = (case map_of m c of Some v \<Rightarrow> v | None \<Rightarrow> c)"

definition apply_unification ::
  "dataframe \<Rightarrow> string \<Rightarrow> (cell \<times> cell) list \<Rightarrow> dataframe" where
  "apply_unification data column_name unification_mapping =
     (if unification_mapping = [] \<or> column_name \<notin> set (columns data) then data
      else data\<lparr>rows :=
        map (\<lambda>r. r(column_name := replace_dict unification_mapping (r column_name)))
          (rows data)\<rparr>)"

section \<open>DataProcessor.get\_filtered\_data\<close>

text \<open>
  A filter set is a dict in insertion order. A value is a scalar, a list, the legacy
  flat unification mapping or the unification mapping by province.
\<close>

datatype filter_value =
    Scalar cell
  | Values "cell list"
  | Mapping "(cell \<times> cell) list"
  | MappingByProvince "(cell \<times> (cell \<times> cell) list) list"

type_synonym filters = "(string \<times> filter_value) list"

text \<open>Truth value of a Python object, as \<open>if value\<close> reads it.\<close>

fun truthy_cell :: "cell \<Rightarrow> bool" where
  "truthy_cell Null = False"
| "truthy_cell (Str s) = (s \<noteq> [])"
| "truthy_cell (Num x) = (x \<noteq> 0)"
| "truthy_cell (Date t) = True"
| "truthy_cell (Flag p) = p"

fun truthy :: "filter_value \<Rightarrow> bool" where
  "truthy (Scalar c) = truthy_cell c"
| "truthy (Values vs) = (vs \<noteq> [])"
| "truthy (Mapping m) = (m \<noteq> [])"
| "truthy (MappingByProvince m) = (m \<noteq> [])"

definition key_by_province :: string where
  "key_by_province = ''sector_unification_mapping_by_province''"

definition key_legacy :: string where
  "key_legacy = ''sector_unification_mapping''"

text \<open>\<open>data[mask]\<close>: the rows whose mask entry is true, in order.\<close>

definition select_rows :: "bool list \<Rightarrow> row list \<Rightarrow> row list" where
  "select_rows msk rs = map snd (filter fst (zip msk rs))"

text \<open>
  \<open>data.loc[mask] = part\<close>, where \<open>part\<close> holds one row for every true entry of the mask:
  the masked rows are overwritten in order, the others stay.
\<close>

fun loc_assign :: "bool list \<Rightarrow> row list \<Rightarrow> row list \<Rightarrow> row list" where
  "loc_assign (m # ms) part (r # rs) =
     (if m then (case part of [] \<Rightarrow> r # loc_assign ms [] rs
                 | p # ps \<Rightarrow> p # loc_assign ms ps rs)
      else r # loc_assign ms part rs)"
| "loc_assign ms part rs = rs"

text \<open>One turn of the loop over the provinces of the mapping (lines 203 to 208).\<close>

definition unify_province ::
  "dataframe \<Rightarrow> cell \<times> (cell \<times> cell) list \<Rightarrow> dataframe" where
  "unify_province filtered_data pm =
     (let province = fst pm; mapping = snd pm;
          province_mask = map (\<lambda>r. py_eq (r ''nombre_prov'') province) (rows filtered_data)
      in if list_ex id province_mask
         then let province_data =
                    filtered_data\<lparr>rows := select_rows province_mask (rows filtered_data)\<rparr>;
                  unified = apply_unification province_data ''sector'' mapping
              in filtered_data\<lparr>rows :=
                   loc_assign province_mask (rows unified) (rows filtered_data)\<rparr>
         else filtered_data)"

text \<open>
  Lines 196 to 216. A value of the wrong shape under one of the two reserved keys is
  taken to raise (\<open>.items()\<close> of a scalar or list is an AttributeError, \<open>replace\<close> with a
  malformed mapping a TypeError).
\<close>

definition unify_step :: "dataframe \<Rightarrow> filters \<Rightarrow> error + dataframe" where
  "unify_step data fs =
     (if fs \<noteq> [] \<and> key_by_province \<in> set (map fst fs)
         \<and> ''sector'' \<in> set (columns data) \<and> ''nombre_prov'' \<in> set (columns data)
      then (case map_of fs key_by_province of
              None \<Rightarrow> Inr data
            | Some (MappingByProvince m) \<Rightarrow> Inr (foldl unify_province data m)
            | Some (Mapping m) \<Rightarrow> if m = [] then Inr data else Inl TypeError
            | Some v \<Rightarrow> if truthy v then Inl AttributeError else Inr data)
      else if fs \<noteq> [] \<and> key_legacy \<in> set (map fst fs) \<and> ''sector'' \<in> set (columns data)
      then (case map_of fs key_legacy of
              None \<Rightarrow> Inr data
            | Some (Mapping m) \<Rightarrow> Inr (apply_unification data ''sector'' m)
            | Some v \<Rightarrow> if truthy v then Inl TypeError else Inr data)
      else Inr data)"

text \<open>
  Lines 218 to 222. Reading a column that the table lacks is a KeyError; the \<open>.str\<close>
  accessor exists on string-valued columns only; \<open>.str.lower()\<close> of a cell that is not a
  string is missing, and so equals nothing.
\<close>

definition activity_step ::
  "pylib \<Rightarrow> dataframe \<Rightarrow> string option \<Rightarrow> error + dataframe" where
  "activity_step L data activity_type =
     (case activity_type of
        None \<Rightarrow> Inr data
      | Some a \<Rightarrow>
          if a = [] then Inr data
          else (case map_of (schema data) ''tipoActividadInspeccion'' of
                  None \<Rightarrow> Inl KeyError
                | Some t \<Rightarrow>
                    if t = Object \<or> t = Category
                    then Inr (data\<lparr>rows :=
                      filter (\<lambda>r. case r ''tipoActividadInspeccion'' of
                                     Str s \<Rightarrow> str_lower L s = str_lower L a
                                   | _ \<Rightarrow> False)
                        (rows data)\<rparr>)
                    else Inl AttributeError))"

text \<open>
  One turn of the loop of lines 226 to 234. A dict as the value of an ordinary key
  equals no cell.
\<close>

fun matches :: "filter_value \<Rightarrow> cell \<Rightarrow> bool" where
  "matches (Values vs) c = isin c vs"
| "matches (Scalar v) c = py_eq c v"
| "matches (Mapping m) c = False"
| "matches (MappingByProvince m) c = False"

definition apply_filter :: "dataframe \<Rightarrow> string \<times> filter_value \<Rightarrow> dataframe" where
  "apply_filter filtered_data kv =
     (let key = fst kv; v = snd kv
      in if key = key_legacy \<or> key = key_by_province then filtered_data
         else if truthy v \<and> key \<in> set (columns filtered_data)
         then filtered_data\<lparr>rows := filter (\<lambda>r. matches v (r key)) (rows filtered_data)\<rparr>
         else filtered_data)"

definition get_filtered_data ::
  "pylib \<Rightarrow> dataframe \<Rightarrow> string option \<Rightarrow> filters \<Rightarrow> error + dataframe" where
  "get_filtered_data L data activity_type fs =
     (case unify_step data fs of
        Inl e \<Rightarrow> Inl e
      | Inr unified \<Rightarrow>
          (case activity_step L unified activity_type of
             Inl e \<Rightarrow> Inl e
           | Inr active \<Rightarrow> Inr (foldl apply_filter active fs)))"

section \<open>DataProcessor.process\_data\<close>

text \<open>
  The pandas operations are taken at the level of values, as their documentation
  states them: \<open>replace\<close> and \<open>fillna\<close> change the cells they name and keep the dtype
  of the column; \<open>to_datetime\<close> and \<open>to_numeric\<close> with \<open>errors='coerce'\<close> turn every cell
  they cannot read into a missing one and leave cells of the target type alone. The
  silent downcasting that \<open>replace\<close> performs in pandas before version 3 (an object
  column left with missing values only becomes a float column) is not modelled.
\<close>

definition date_columns :: "string list" where
  "date_columns = [''fecha_inspeccion'', ''_createdAt_x'', ''_createdAt_y'', ''hora_ingreso'',
     ''hora_salida'', ''fecha_creacion'', ''recuperacion_fecha'',
     ''recuperacion_fecha_asignacion'']"

definition critical_numeric_columns :: "string list" where
  "critical_numeric_columns = [''cod_renipress'', ''aedic_index'', ''container_index'',
     ''breteau_index'', ''intensity'', ''indice_aedico'']"

text \<open>\<open>data.replace(s, np.nan)\<close> on the whole table.\<close>

definition replace_value :: "string \<Rightarrow> dataframe \<Rightarrow> dataframe" where
  "replace_value s df = df\<lparr>rows := map (\<lambda>r c. if r c = Str s then Null else r c) (rows df)\<rparr>"

text \<open>
  \<open>data[col] = series\<close>: a column that exists keeps its place and takes the dtype of
  the series, a new one is appended.
\<close>

definition set_dtype :: "string \<Rightarrow> dtype \<Rightarrow> (string \<times> dtype) list \<Rightarrow> (string \<times> dtype) list" where
  "set_dtype c t s = AList.update c t s"

definition assign_column :: "string \<Rightarrow> dtype \<Rightarrow> (row \<Rightarrow> cell) \<Rightarrow> dataframe \<Rightarrow> dataframe" where
  "assign_column c t f df =
     df\<lparr>schema := set_dtype c t (schema df), rows := map (\<lambda>r. r(c := f r)) (rows df)\<rparr>"

definition coerce_datetime :: "pylib \<Rightarrow> cell \<Rightarrow> cell" where
  "coerce_datetime L c =
     (case c of Null \<Rightarrow> Null | Date t \<Rightarrow> Date t
      | _ \<Rightarrow> (case to_datetime L c of Some t \<Rightarrow> Date t | None \<Rightarrow> Null))"

definition coerce_numeric :: "pylib \<Rightarrow> cell \<Rightarrow> cell" where
  "coerce_numeric L c =
     (case c of Null \<Rightarrow> Null | Num x \<Rightarrow> Num x
      | _ \<Rightarrow> (case to_numeric L c of Some x \<Rightarrow> Num x | None \<Rightarrow> Null))"

definition fillna :: "cell \<Rightarrow> cell \<Rightarrow> cell" where
  "fillna v c = (if c = Null then v else c)"

text \<open>\<open>series.replace(s, v)\<close> and \<open>series.astype(str)\<close> on one cell.\<close>

definition replace_cell :: "string \<Rightarrow> cell \<Rightarrow> cell \<Rightarrow> cell" where
  "replace_cell s v c = (if c = Str s then v else c)"

definition cell_str :: "pylib \<Rightarrow> cell \<Rightarrow> string" where
  "cell_str L c = (case c of Str s \<Rightarrow> s | _ \<Rightarrow> py_str L c)"

definition astype_str :: "pylib \<Rightarrow> cell \<Rightarrow> cell" where
  "astype_str L c = Str (cell_str L c)"

text \<open>Lines 156 to 158.\<close>

definition convert_dates :: "pylib \<Rightarrow> dataframe \<Rightarrow> dataframe" where
  "convert_dates L df =
     foldl (\<lambda>d col. if col \<in> set (columns d)
                     then assign_column col Datetime (\<lambda>r. coerce_datetime L (r col)) d
                     else d)
       df date_columns"

text \<open>Lines 161 and 162; the year of a missing date is missing.\<close>

definition year_cell :: "pylib \<Rightarrow> cell \<Rightarrow> cell" where
  "year_cell L c = (case c of Date t \<Rightarrow> Num (of_int (year_of L t)) | _ \<Rightarrow> Null)"

definition extract_year :: "pylib \<Rightarrow> dataframe \<Rightarrow> dataframe" where
  "extract_year L df =
     (if ''fecha_inspeccion'' \<in> set (columns df)
      then assign_column ''year'' Number (\<lambda>r. year_cell L (r ''fecha_inspeccion'')) df
      else df)"

text \<open>Lines 168 to 171.\<close>

definition convert_critical :: "pylib \<Rightarrow> dataframe \<Rightarrow> dataframe" where
  "convert_critical L df =
     foldl (\<lambda>d col. if col \<in> set (columns d)
                     then assign_column col Number (\<lambda>r. fillna (Num 0) (r col))
                            (assign_column col Number (\<lambda>r. coerce_numeric L (r col)) d)
                     else d)
       df critical_numeric_columns"

text \<open>\<open>data.select_dtypes(include=...).columns\<close>.\<close>

definition select_dtypes :: "dtype list \<Rightarrow> dataframe \<Rightarrow> string list" where
  "select_dtypes ts df = map fst (filter (\<lambda>nt. snd nt \<in> set ts) (schema df))"

text \<open>Lines 174 and 175.\<close>

definition fill_numeric :: "dataframe \<Rightarrow> dataframe" where
  "fill_numeric df =
     (let numeric_columns = select_dtypes [Number] df
      in df\<lparr>rows := map (\<lambda>r c. if c \<in> set numeric_columns then fillna (Num 0) (r c) else r c)
                     (rows df)\<rparr>)"

text \<open>Lines 178 to 185: the five assignments to one text column.\<close>

definition clean_text :: "pylib \<Rightarrow> cell \<Rightarrow> cell" where
  "clean_text L c =
     replace_cell ''None'' (Str [])
       (replace_cell ''NaN'' (Str [])
          (replace_cell ''nan'' (Str [])
             (astype_str L (fillna (Str []) c))))"

definition fill_text :: "pylib \<Rightarrow> dataframe \<Rightarrow> dataframe" where
  "fill_text L df =
     foldl (\<lambda>d col. if col \<notin> set date_columns
                     then assign_column col Object (\<lambda>r. clean_text L (r col)) d
                     else d)
       df (select_dtypes [Object] df)"

definition process_data :: "pylib \<Rightarrow> dataframe \<Rightarrow> dataframe" where
  "process_data L df =
     fill_text L (fill_numeric (convert_critical L (extract_year L (convert_dates L
       (replace_value ''nan'' (replace_value '' '' (replace_value [] df)))))))"

section \<open>DataProcessor.\_optimize\_for\_production and the constructor\<close>

text \<open>\<open>series.nunique()\<close> counts the distinct values that are not missing.\<close>

definition nunique :: "cell list \<Rightarrow> nat" where
  "nunique cs = length (remdups (filter (\<lambda>c. c \<noteq> Null) cs))"

text \<open>
  Lines 55 to 68; the messages and the memory figures change no data. A table without
  rows loses every column in the first step, so the ratio is never taken over zero rows.
\<close>

definition optimize_for_production :: "dataframe \<Rightarrow> dataframe" where
  "optimize_for_production data =
     (let empty_cols = filter (\<lambda>c. list_all (\<lambda>r. r c = Null) (rows data)) (columns data);
          kept = data\<lparr>schema := filter (\<lambda>nt. fst nt \<notin> set empty_cols) (schema data)\<rparr>
      in kept\<lparr>schema :=
           map (\<lambda>nt. if snd nt = Object
                        \<and> real (nunique (column_values kept (fst nt))) / real (length (rows kept)) < 3 / 10
                      then (fst nt, Category) else nt)
             (schema kept)\<rparr>)"

text \<open>
  The constructor: \<open>is_production\<close> is what \<open>_detect_replit_production\<close> reads from the
  environment.
\<close>

definition init_data :: "pylib \<Rightarrow> bool \<Rightarrow> dataframe \<Rightarrow> dataframe" where
  "init_data L is_production data =
     process_data L (if is_production then optimize_for_production data else data)"

section \<open>DataProcessor.get\_unique\_values\<close>

text \<open>\<open>series.unique()\<close>: the distinct values in order of first appearance.\<close>

definition unique :: "'a list \<Rightarrow> 'a list" where
  "unique xs = rev (remdups (rev xs))"

definition is_digit_string :: "string \<Rightarrow> bool" where
  "is_digit_string s = (s \<noteq> [] \<and> list_all (\<lambda>c. CHR ''0'' \<le> c \<and> c \<le> CHR ''9'') s)"

definition cell_float :: "pylib \<Rightarrow> cell \<Rightarrow> real option" where
  "cell_float L c =
     (case c of Num x \<Rightarrow> Some x | Str s \<Rightarrow> py_float L s
      | Flag p \<Rightarrow> Some (if p then 1 else 0) | _ \<Rightarrow> None)"

text \<open>
  The sort key of line 248. A key is a float or infinity: \<open>(False, x)\<close> is the float
  \<open>x\<close> and \<open>(True, 0)\<close> is infinity, in the lexicographic order of pairs. \<open>None\<close> is an
  exception raised by \<open>float\<close>.
\<close>

definition numeric_key :: "pylib \<Rightarrow> cell \<Rightarrow> (bool \<times> real) option" where
  "numeric_key L x =
     (if is_digit_string (filter (\<lambda>c. c \<noteq> CHR ''.'') (cell_str L x))
      then (case cell_float L x of Some v \<Rightarrow> Some (False, v) | None \<Rightarrow> None)
      else Some (True, 0))"

definition get_unique_values :: "pylib \<Rightarrow> dataframe \<Rightarrow> string \<Rightarrow> bool \<Rightarrow> cell list" where
  "get_unique_values L data column_name sorted_order =
     (if column_name \<notin> set (columns data) then []
      else let unique_values = unique (filter (\<lambda>c. c \<noteq> Null) (column_values data column_name))
           in if sorted_order
              then (if list_all (\<lambda>x. numeric_key L x \<noteq> None) unique_values
                    then sort_key (\<lambda>x. case numeric_key L x of Some k \<Rightarrow> k | None \<Rightarrow> (True, 0))
                           unique_values
                    else sort_key (cell_str L) unique_values)
              else unique_values)"

section \<open>CercoTab.calculate\_cerco\_effectiveness\<close>

record effectiveness_row =
  cod_renipress :: cell
  localidad_eess :: cell
  total_houses :: nat
  positive_houses :: nat
  effectiveness_percentage :: real
  intervention_score :: real

text \<open>\<open>data.empty\<close>: no rows or no columns.\<close>

definition empty_frame :: "dataframe \<Rightarrow> bool" where
  "empty_frame df = (rows df = [] \<or> schema df = [])"

text \<open>Python's \<open>a / b\<close> on numbers.\<close>

definition truediv :: "real \<Rightarrow> real \<Rightarrow> error + real" where
  "truediv a b = (if b = 0 then Inl ZeroDivisionError else Inr (a / b))"

text \<open>The body of the loop over the facilities, lines 709 to 734.\<close>

definition facility_entry :: "dataframe \<Rightarrow> cell \<Rightarrow> error + effectiveness_row" where
  "facility_entry data facility =
     (let facility_data = filter (\<lambda>r. py_eq (r ''localidad_eess'') facility) (rows data)
      in if facility_data \<noteq> [] \<and> ''cod_renipress'' \<notin> set (columns data) then Inl KeyError
         else if ''atencion_vivienda_indicador'' \<notin> set (columns data) then Inl KeyError
         else if ''viv_positiva'' \<notin> set (columns data) then Inl KeyError
         else
           let renipress_code =
                 (case facility_data of [] \<Rightarrow> Num 0 | r # rs \<Rightarrow> r ''cod_renipress'');
               total_count = length (filter
                 (\<lambda>r. isin (r ''atencion_vivienda_indicador'') [Num 1, Num 2, Num 3, Num 4])
                 facility_data);
               positive_count = length (filter
                 (\<lambda>r. py_eq (r ''viv_positiva'') (Num 1)
                      \<and> py_eq (r ''atencion_vivienda_indicador'') (Num 1))
                 facility_data)
           in case (if total_count > 0
                    then (case truediv (real total_count - real positive_count) (real total_count) of
                            Inl e \<Rightarrow> Inl e | Inr q \<Rightarrow> Inr (q * 100))
                    else Inr 0) of
                Inl e \<Rightarrow> Inl e
              | Inr effectiveness \<Rightarrow>
                  (case truediv (real total_count) (real (max 1 positive_count)) of
                     Inl e \<Rightarrow> Inl e
                   | Inr q \<Rightarrow>
                       Inr \<lparr>cod_renipress = renipress_code,
                            localidad_eess = facility,
                            total_houses = total_count,
                            positive_houses = positive_count,
                            effectiveness_percentage = effectiveness,
                            intervention_score = min 10 (q * 2)\<rparr>))"

text \<open>A loop that appends one entry per turn and stops at the first exception.\<close>

fun collect :: "('a \<Rightarrow> error + 'b) \<Rightarrow> 'a list \<Rightarrow> error + 'b list" where
  "collect f [] = Inr []"
| "collect f (x # xs) =
     (case f x of
        Inl e \<Rightarrow> Inl e
      | Inr y \<Rightarrow> (case collect f xs of Inl e \<Rightarrow> Inl e | Inr ys \<Rightarrow> Inr (y # ys)))"

definition calculate_cerco_effectiveness :: "dataframe \<Rightarrow> error + effectiveness_row list" where
  "calculate_cerco_effectiveness data =
     (if empty_frame data then Inr []
      else if ''localidad_eess'' \<notin> set (columns data) then Inl KeyError
      else collect (facility_entry data) (unique (column_values data ''localidad_eess'')))"

section \<open>table\_helpers.safe\_dataframe\<close>








section \<open>SectorSimilarityDetector\<close>

text \<open>Labels are strings. Lines 22 to 36 and 38 to 49.\<close>

definition normalize_sector_name :: "pylib \<Rightarrow> string \<Rightarrow> string" where
  "normalize_sector_name L sector_name =
     (if sector_name = [] then []
      else sub_spaces L (sub_nonword L (str_upper L (str_strip L sector_name))))"

definition calculate_similarity :: "pylib \<Rightarrow> string \<Rightarrow> string \<Rightarrow> real" where
  "calculate_similarity L sector1 sector2 =
     (if sector1 = [] \<or> sector2 = [] then 0
      else let norm1 = normalize_sector_name L sector1;
               norm2 = normalize_sector_name L sector2
           in if norm1 = norm2 then 1 else seq_ratio L norm1 norm2)"

text \<open>\<open>min(group, key=len)\<close>: the first of the shortest members.\<close>

fun shortest :: "string list \<Rightarrow> string" where
  "shortest [] = []"
| "shortest [x] = x"
| "shortest (x # y # ys) = (let m = shortest (y # ys) in if length m < length x then m else x)"

text \<open>The inner loop, lines 81 to 89, over the labels after \<open>sector1\<close>.\<close>

fun collect_similar ::
  "pylib \<Rightarrow> real \<Rightarrow> string \<Rightarrow> string list \<Rightarrow> string list \<times> string set \<Rightarrow> string list \<times> string set"
  where
  "collect_similar L threshold sector1 [] gp = gp"
| "collect_similar L threshold sector1 (sector2 # rest) gp =
     (if sector2 \<in> snd gp then collect_similar L threshold sector1 rest gp
      else if calculate_similarity L sector1 sector2 \<ge> threshold
      then collect_similar L threshold sector1 rest (fst gp @ [sector2], insert sector2 (snd gp))
      else collect_similar L threshold sector1 rest gp)"

text \<open>The outer loop, lines 74 to 95; the result dict keeps insertion order.\<close>

fun group_sectors ::
  "pylib \<Rightarrow> real \<Rightarrow> string list \<Rightarrow> string set \<Rightarrow> (string \<times> string list) list
    \<Rightarrow> (string \<times> string list) list" where
  "group_sectors L threshold [] processed similar_groups = similar_groups"
| "group_sectors L threshold (sector1 # rest) processed similar_groups =
     (if sector1 \<in> processed then group_sectors L threshold rest processed similar_groups
      else
        let gp = collect_similar L threshold sector1 rest ([sector1], insert sector1 processed)
        in group_sectors L threshold rest (snd gp)
             (if length (fst gp) > 1
              then AList.update (shortest (fst gp)) (fst gp) similar_groups
              else similar_groups))"

definition find_similar_sectors ::
  "pylib \<Rightarrow> real \<Rightarrow> string list \<Rightarrow> (string \<times> string list) list" where
  "find_similar_sectors L threshold sectors_list =
     (if sectors_list = [] then []
      else let valid_sectors = filter (\<lambda>s. str_strip L s \<noteq> []) sectors_list
           in if length valid_sectors < 2 then []
              else group_sectors L threshold valid_sectors {} [])"

section \<open>Predicates of the claims\<close>

text \<open>
  The two keys that carry a unification mapping; an entry of the filter set is applied
  when its key is none of them, its value is true for Python and its key is a column;
  a row passes a filter set when it matches every applied entry.
\<close>

definition reserved :: "string \<Rightarrow> bool" where
  "reserved k = (k = key_legacy \<or> k = key_by_province)"

definition applied :: "dataframe \<Rightarrow> string \<Rightarrow> filter_value \<Rightarrow> bool" where
  "applied d k v = (\<not> reserved k \<and> truthy v \<and> k \<in> set (columns d))"

definition passes :: "dataframe \<Rightarrow> filters \<Rightarrow> row \<Rightarrow> bool" where
  "passes d fs r = list_all (\<lambda>kv. applied d (fst kv) (snd kv) \<longrightarrow> matches (snd kv) (r (fst kv))) fs"

text \<open>
  A row lies in a province named by the mapping; a row of the view against the row of
  the table it comes from: equal outside the sector column, and equal everywhere when
  the province is not named.
\<close>

definition named_province :: "(cell \<times> (cell \<times> cell) list) list \<Rightarrow> row \<Rightarrow> bool" where
  "named_province m r = list_ex (\<lambda>pm. py_eq (r ''nombre_prov'') (fst pm)) m"

definition frame_ok :: "(cell \<times> (cell \<times> cell) list) list \<Rightarrow> row \<Rightarrow> row \<Rightarrow> bool" where
  "frame_ok m r r' = ((\<forall>c. c \<noteq> ''sector'' \<longrightarrow> r' c = r c) \<and> (\<not> named_province m r \<longrightarrow> r' = r))"

text \<open>
  The figures of the cerco per facility: the rows of the facility, the count of those
  attended (indicator 1, 2, 3 or 4), the count of those inspected and positive, the code
  of the first row, and the entry the claim describes. The columns the function reads.
\<close>

definition facility_rows :: "dataframe \<Rightarrow> cell \<Rightarrow> row list" where
  "facility_rows data f = filter (\<lambda>r. py_eq (r ''localidad_eess'') f) (rows data)"

definition attended :: "dataframe \<Rightarrow> cell \<Rightarrow> nat" where
  "attended data f =
     length (filter (\<lambda>r. list_ex (\<lambda>v. py_eq (r ''atencion_vivienda_indicador'') (Num v)) [1, 2, 3, 4])
       (facility_rows data f))"

definition positives :: "dataframe \<Rightarrow> cell \<Rightarrow> nat" where
  "positives data f =
     length (filter (\<lambda>r. py_eq (r ''viv_positiva'') (Num 1)
                          \<and> py_eq (r ''atencion_vivienda_indicador'') (Num 1))
       (facility_rows data f))"

definition first_code :: "dataframe \<Rightarrow> cell \<Rightarrow> cell" where
  "first_code data f = (case facility_rows data f of [] \<Rightarrow> Num 0 | r # rs \<Rightarrow> r ''cod_renipress'')"

definition expected_entry :: "dataframe \<Rightarrow> cell \<Rightarrow> effectiveness_row" where
  "expected_entry data f =
     \<lparr>cod_renipress = first_code data f,
      localidad_eess = f,
      total_houses = attended data f,
      positive_houses = positives data f,
      effectiveness_percentage =
        (if attended data f = 0 then 0
         else (real (attended data f) - real (positives data f)) / real (attended data f) * 100),
      intervention_score = min 10 (real (attended data f) / real (max 1 (positives data f)) * 2)\<rparr>"

definition cerco_columns :: "string list" where
  "cerco_columns = [''localidad_eess'', ''cod_renipress'', ''atencion_vivienda_indicador'',
     ''viv_positiva'']"

text \<open>A key is the first of the shortest members of its group.\<close>

definition first_shortest :: "string \<Rightarrow> string list \<Rightarrow> bool" where
  "first_shortest k g =
     (\<exists>pre post. g = pre @ k # post \<and> (\<forall>m\<in>set pre. length k < length m)
                   \<and> (\<forall>m\<in>set post. length k \<le> length m))"

text \<open>
  Normalization: a row changed by \<open>g\<close> in the columns of a set; the three replacements of
  lines 147 to 149 on one cell; the missing markers of a text cell; and, for a table,
  the row and the dtypes that normalization gives. A column is a date column, the year,
  a critical numeric column, or treated by its dtype, in this order.
\<close>

definition upd_cols :: "(cell \<Rightarrow> cell) \<Rightarrow> string set \<Rightarrow> row \<Rightarrow> row" where
  "upd_cols g A r = (\<lambda>c. if c \<in> A then g (r c) else r c)"

definition blank :: "cell \<Rightarrow> cell" where
  "blank v = (if v = Str [] \<or> v = Str '' '' \<or> v = Str ''nan'' then Null else v)"

definition marker :: "cell \<Rightarrow> bool" where
  "marker v = (v = Null \<or> v = Str [] \<or> v = Str '' '' \<or> v = Str ''nan'' \<or> v = Str ''NaN''
               \<or> v = Str ''None'')"

definition norm_row :: "pylib \<Rightarrow> dataframe \<Rightarrow> row \<Rightarrow> row" where
  "norm_row L d r c =
     (if c \<in> set date_columns \<and> c \<in> set (columns d) then coerce_datetime L (blank (r c))
      else if c = ''year'' \<and> ''fecha_inspeccion'' \<in> set (columns d)
      then fillna (Num 0) (year_cell L (coerce_datetime L (blank (r ''fecha_inspeccion''))))
      else if c \<in> set critical_numeric_columns \<and> c \<in> set (columns d)
      then fillna (Num 0) (coerce_numeric L (blank (r c)))
      else if map_of (schema d) c = Some Number then fillna (Num 0) (blank (r c))
      else if map_of (schema d) c = Some Object then clean_text L (blank (r c))
      else blank (r c))"

definition norm_dtype :: "dataframe \<Rightarrow> string \<Rightarrow> dtype option" where
  "norm_dtype d c =
     (if c \<in> set date_columns \<and> c \<in> set (columns d) then Some Datetime
      else if c = ''year'' \<and> ''fecha_inspeccion'' \<in> set (columns d) then Some Number
      else if c \<in> set critical_numeric_columns \<and> c \<in> set (columns d) then Some Number
      else map_of (schema d) c)"

section \<open>Example inputs\<close>

text \<open>
  An instance of the library functions for the runs on concrete inputs. Case, blanks
  and \<open>str\<close> are those of Python on the ASCII strings of the examples; the functions that
  read dates and numbers, the punctuation filter and the ratio are stand-ins that know
  the values of the examples only.
\<close>

definition ascii_lower :: "string \<Rightarrow> string" where
  "ascii_lower s =
     map (\<lambda>c. case map_of (zip ''ABCDEFGHIJKLMNOPQRSTUVWXYZ'' ''abcdefghijklmnopqrstuvwxyz'') c of
                Some l \<Rightarrow> l | None \<Rightarrow> c) s"

definition ascii_upper :: "string \<Rightarrow> string" where
  "ascii_upper s =
     map (\<lambda>c. case map_of (zip ''abcdefghijklmnopqrstuvwxyz'' ''ABCDEFGHIJKLMNOPQRSTUVWXYZ'') c of
                Some u \<Rightarrow> u | None \<Rightarrow> c) s"

definition ascii_lib :: pylib where
  "ascii_lib = \<lparr>
     str_lower = ascii_lower,
     str_upper = ascii_upper,
     str_strip = (\<lambda>s. rev (dropWhile (\<lambda>c. c = CHR '' '') (rev (dropWhile (\<lambda>c. c = CHR '' '') s)))),
     sub_nonword = filter (\<lambda>c. c \<noteq> CHR ''.'' \<and> c \<noteq> CHR '','' \<and> c \<noteq> CHR ''-''),
     sub_spaces = (\<lambda>s. s),
     seq_ratio = (\<lambda>a b. if a = b then 1 else 0),
     to_datetime = (\<lambda>c. case c of Str s \<Rightarrow> (if s = ''2024-03-01'' then Some 19783 else None)
                          | _ \<Rightarrow> None),
     year_of = (\<lambda>t. 1970 + t div 365),
     to_numeric = (\<lambda>c. case c of Str s \<Rightarrow> (if s = ''5060'' then Some 5060 else None)
                         | _ \<Rightarrow> None),
     py_str = (\<lambda>c. case c of Str s \<Rightarrow> s | Null \<Rightarrow> ''nan'' | Flag p \<Rightarrow> (if p then ''True'' else ''False'')
                     | _ \<Rightarrow> ''0''),
     py_float = (\<lambda>s. if s = ''1'' then Some 1 else if s = ''2'' then Some 2 else None)
   \<rparr>"

text \<open>A row given by its cells; every other column is missing.\<close>

definition row_of :: "(string \<times> cell) list \<Rightarrow> row" where
  "row_of kvs c = (case map_of kvs c of Some v \<Rightarrow> v | None \<Rightarrow> Null)"

text \<open>Tables and filter sets for \<open>get_filtered_data\<close>.\<close>

definition sectors_only :: dataframe where
  "sectors_only = \<lparr>schema = [(''sector'', Object)],
                    rows = [row_of [(''sector'', Str ''A'')]]\<rparr>"

definition houses :: dataframe where
  "houses = \<lparr>schema = [(''viv_positiva'', Number), (''sector'', Object)],
              rows = [row_of [(''viv_positiva'', Num 0), (''sector'', Str ''A'')],
                      row_of [(''viv_positiva'', Num 1), (''sector'', Str ''B'')],
                      row_of [(''viv_positiva'', Num 1), (''sector'', Str ''A'')]]\<rparr>"


definition by_province :: "(cell \<times> (cell \<times> cell) list) list" where
  "by_province = [(Str ''LIMA'', [(Str ''SAN JUA'', Str ''SAN JUAN'')])]"

definition visits :: dataframe where
  "visits = \<lparr>schema = [(''nombre_prov'', Object), (''sector'', Object),
                        (''tipoActividadInspeccion'', Object)],
              rows = [row_of [(''nombre_prov'', Str ''LIMA''), (''sector'', Str ''SAN JUA''),
                              (''tipoActividadInspeccion'', Str ''Cerco'')],
                      row_of [(''nombre_prov'', Str ''CUSCO''), (''sector'', Str ''SAN JUA''),
                              (''tipoActividadInspeccion'', Str ''cerco'')],
                      row_of [(''nombre_prov'', Str ''LIMA''), (''sector'', Str ''SAN JUA''),
                              (''tipoActividadInspeccion'', Str ''vigilancia'')]]\<rparr>"

definition visits_view :: dataframe where
  "visits_view = \<lparr>schema = [(''nombre_prov'', Object), (''sector'', Object),
                        (''tipoActividadInspeccion'', Object)],
              rows = [(row_of [(''nombre_prov'', Str ''LIMA''), (''sector'', Str ''SAN JUA''),
                              (''tipoActividadInspeccion'', Str ''Cerco'')])
                         (''sector'' := Str ''SAN JUAN''),
                      row_of [(''nombre_prov'', Str ''CUSCO''), (''sector'', Str ''SAN JUA''),
                              (''tipoActividadInspeccion'', Str ''cerco'')]]\<rparr>"



text \<open>A view of two facilities, sector labels, and a text column with a missing cell.\<close>

definition cerco_view :: dataframe where
  "cerco_view =
     \<lparr>schema = [(''localidad_eess'', Object), (''cod_renipress'', Number),
                (''atencion_vivienda_indicador'', Number), (''viv_positiva'', Number)],
      rows = [row_of [(''localidad_eess'', Str ''LA UNION''), (''cod_renipress'', Num 7259),
                      (''atencion_vivienda_indicador'', Num 1), (''viv_positiva'', Num 1)],
              row_of [(''localidad_eess'', Str ''SAN JOSE''), (''cod_renipress'', Num 1345),
                      (''atencion_vivienda_indicador'', Num 0), (''viv_positiva'', Num 1)],
              row_of [(''localidad_eess'', Str ''LA UNION''), (''cod_renipress'', Num 7259),
                      (''atencion_vivienda_indicador'', Num 1), (''viv_positiva'', Num 0)],
              row_of [(''localidad_eess'', Str ''LA UNION''), (''cod_renipress'', Num 7259),
                      (''atencion_vivienda_indicador'', Num 2), (''viv_positiva'', Num 1)],
              row_of [(''localidad_eess'', Str ''LA UNION''), (''cod_renipress'', Num 7259),
                      (''atencion_vivienda_indicador'', Num 4), (''viv_positiva'', Num 0)]]\<rparr>"

definition sector_labels :: "string list" where
  "sector_labels = [''SAN JUAN.'', ''SAN JUAN'', ''LAS LOMAS'', ''san juan'', '' '']"

definition zones :: dataframe where
  "zones = \<lparr>schema = [(''sector'', Object)],
             rows = [row_of [(''sector'', Str ''SUR'')],
                     row_of [(''sector'', Str ''NORTE'')],
                     row_of [(''sector'', Str ''SUR'')],
                     row_of [(''sector'', Null)],
                     row_of [(''sector'', Str ''CENTRO'')]]\<rparr>"

text \<open>
  Raw tables for normalization: one with a date, a facility code, a text and a numeric
  column; one whose text cell is two blanks; one whose text column has few distinct
  values and a missing cell.
\<close>

definition raw_visits :: dataframe where
  "raw_visits =
     \<lparr>schema = [(''fecha_inspeccion'', Object), (''cod_renipress'', Object),
                (''sector'', Object), (''viv_positiva'', Number)],
      rows = [row_of [(''fecha_inspeccion'', Str ''2024-03-01''), (''cod_renipress'', Str ''5060''),
                      (''sector'', Str ''None''), (''viv_positiva'', Null)],
              row_of [(''fecha_inspeccion'', Str ''nan''), (''cod_renipress'', Str ''abc''),
                      (''sector'', Str '' ''), (''viv_positiva'', Num 1)]]\<rparr>"

definition padded :: dataframe where
  "padded = \<lparr>schema = [(''sector'', Object)], rows = [row_of [(''sector'', Str ''  '')]]\<rparr>"

definition sparse :: dataframe where
  "sparse = \<lparr>schema = [(''sector'', Object)],
              rows = [row_of [(''sector'', Str ''A'')], row_of [(''sector'', Str ''A'')],
                      row_of [(''sector'', Str ''A'')], row_of [(''sector'', Null)]]\<rparr>"

section \<open>Lemmas on the filtered view\<close>

lemma apply_filter_schema: "schema (apply_filter d kv) = schema d"
  by (simp add: apply_filter_def Let_def)

lemma apply_filter_columns: "columns (apply_filter d kv) = columns d"
  by (simp add: columns_def apply_filter_schema)

lemma apply_filter_rows:
  "rows (apply_filter d kv) =
     filter (\<lambda>r. applied d (fst kv) (snd kv) \<longrightarrow> matches (snd kv) (r (fst kv))) (rows d)"
  by (auto simp: apply_filter_def Let_def applied_def reserved_def)

lemma apply_filter_eq:
  "apply_filter d kv =
     d\<lparr>rows := filter (\<lambda>r. applied d (fst kv) (snd kv) \<longrightarrow> matches (snd kv) (r (fst kv))) (rows d)\<rparr>"
  by (auto simp: apply_filter_def Let_def applied_def reserved_def)

lemma applied_rows_upd [simp]: "applied (d\<lparr>rows := rs\<rparr>) k v = applied d k v"
  by (simp add: applied_def columns_def)

lemma foldl_apply_filter:
  "foldl apply_filter d fs = d\<lparr>rows := filter (passes d fs) (rows d)\<rparr>"
proof (induction fs arbitrary: d)
  case Nil
  then show ?case by (simp add: passes_def)
next
  case (Cons kv fs)
  have p: "passes (apply_filter d kv) fs = passes d fs"
    by (rule ext) (simp add: passes_def apply_filter_eq)
  show ?case
    unfolding foldl_Cons Cons.IH p
    by (simp add: apply_filter_eq passes_def conj_commute cong: filter_cong)
qed




lemma unify_step_append:
  assumes "\<not> reserved k"
  shows "unify_step data (AList.update k v fs) = unify_step data fs"
proof -
  have r1: "k \<noteq> key_by_province" and r2: "k \<noteq> key_legacy"
    using assms by (auto simp: reserved_def)
  have m1: "map_of (AList.update k v fs) key_by_province = map_of fs key_by_province"
    using r1 by (simp add: update_conv')
  have m2: "map_of (AList.update k v fs) key_legacy = map_of fs key_legacy"
    using r2 by (simp add: update_conv')
  have d1: "(AList.update k v fs \<noteq> [] \<and> key_by_province \<in> set (map fst (AList.update k v fs)))
      = (fs \<noteq> [] \<and> key_by_province \<in> set (map fst fs))"
    using r1 by (auto simp: dom_update image_iff)
  have d2: "(AList.update k v fs \<noteq> [] \<and> key_legacy \<in> set (map fst (AList.update k v fs)))
      = (fs \<noteq> [] \<and> key_legacy \<in> set (map fst fs))"
    using r2 by (auto simp: dom_update image_iff)
  show ?thesis
    unfolding unify_step_def conj_assoc[symmetric] d1 d2 m1 m2 by (rule refl)
qed

lemma update_fresh: "k \<notin> set (map fst fs) \<Longrightarrow> AList.update k v fs = fs @ [(k, v)]"
  by (induction fs) auto

lemma select_rows_map:
  "select_rows (map P rs) rs = filter P rs"
  by (induction rs) (auto simp: select_rows_def)

lemma loc_assign_map:
  "loc_assign (map P rs) (map f (filter P rs)) rs = map (\<lambda>r. if P r then f r else r) rs"
  by (induction rs) auto

lemma unify_province_schema: "schema (unify_province d pm) = schema d"
  by (simp add: unify_province_def Let_def)

lemma unify_province_rows:
  "rows (unify_province d pm) =
     map (\<lambda>r. if py_eq (r ''nombre_prov'') (fst pm) \<and> snd pm \<noteq> [] \<and> ''sector'' \<in> set (columns d)
               then r(''sector'' := replace_dict (snd pm) (r ''sector'')) else r) (rows d)"
proof -
  let ?P = "\<lambda>r. py_eq (r ''nombre_prov'') (fst pm)"
  show ?thesis
  proof (cases "list_ex id (map ?P (rows d))")
    case True
    show ?thesis
    proof (cases "snd pm = [] \<or> ''sector'' \<notin> set (columns d)")
      case True
      have "loc_assign (map ?P (rows d)) (map (\<lambda>r. r) (filter ?P (rows d))) (rows d) = rows d"
        unfolding loc_assign_map by (simp add: map_idI)
      with True \<open>list_ex id (map ?P (rows d))\<close> show ?thesis
        by (auto simp: unify_province_def Let_def apply_unification_def select_rows_map columns_def
            intro!: map_idI[symmetric])
    next
      case False
      with \<open>list_ex id (map ?P (rows d))\<close> show ?thesis
        by (auto simp: unify_province_def Let_def apply_unification_def select_rows_map columns_def
            loc_assign_map)
    qed
  next
    case False
    then have "\<forall>r\<in>set (rows d). \<not> ?P r" by (auto simp: list_ex_iff)
    with False show ?thesis
      by (auto simp: unify_province_def Let_def intro!: map_idI[symmetric])
  qed
qed

lemma unify_province_frame:
  "list_all2 (frame_ok [pm]) (rows d) (rows (unify_province d pm))"
  unfolding unify_province_rows
  by (auto simp: list_all2_map2 frame_ok_def named_province_def intro!: list_all2_refl)

lemma frame_ok_step:
  assumes "frame_ok [pm] r r'" "frame_ok m r' r''"
  shows "frame_ok (pm # m) r r''"
proof -
  have same: "r' ''nombre_prov'' = r ''nombre_prov''"
    using assms(1) by (simp add: frame_ok_def)
  show ?thesis
    using assms same by (auto simp: frame_ok_def named_province_def)
qed

lemma foldl_unify_province_schema: "schema (foldl unify_province d m) = schema d"
  by (induction m arbitrary: d) (simp_all add: unify_province_schema)

lemma foldl_unify_province_frame:
  "list_all2 (frame_ok m) (rows d) (rows (foldl unify_province d m))"
proof (induction m arbitrary: d)
  case Nil
  show ?case by (simp add: frame_ok_def list_all2_refl)
next
  case (Cons pm m)
  have a: "list_all2 (frame_ok [pm]) (rows d) (rows (unify_province d pm))"
    by (rule unify_province_frame)
  have b: "list_all2 (frame_ok m) (rows (unify_province d pm))
             (rows (foldl unify_province (unify_province d pm) m))"
    by (rule Cons.IH)
  show ?case
    unfolding foldl_Cons
    using frame_ok_step a b by (rule list_all2_trans)
qed

lemma list_all2_filter_subseq:
  "list_all2 R xs ys \<Longrightarrow> \<exists>xs'. subseq xs' xs \<and> list_all2 R xs' (filter P ys)"
proof (induction rule: list_all2_induct)
  case Nil
  show ?case by simp
next
  case (Cons x xs y ys)
  then obtain xs' where s: "subseq xs' xs" and r: "list_all2 R xs' (filter P ys)" by blast
  show ?case
  proof (cases "P y")
    case True
    have "subseq (x # xs') (x # xs)" using s by simp
    moreover have "list_all2 R (x # xs') (filter P (y # ys))" using True r Cons.hyps(1) by simp
    ultimately show ?thesis by blast
  next
    case False
    have "subseq xs' (x # xs)" using s by (rule list_emb_Cons)
    moreover have "list_all2 R xs' (filter P (y # ys))" using False r by simp
    ultimately show ?thesis by blast
  qed
qed

text \<open>The definitions that a run on a concrete table unfolds.\<close>

lemmas run_defs = get_filtered_data_def unify_step_def activity_step_def apply_filter_def
  unify_province_def apply_unification_def select_rows_def columns_def replace_dict_def
  row_of_def ascii_lib_def ascii_lower_def key_legacy_def key_by_province_def isin_def Let_def

section \<open>Claims on the filtered view\<close>

text \<open>
  C3: with a non-empty activity type on a table that lacks the column
  \<open>tipoActividadInspeccion\<close>, the activity filter is skipped and a view is returned.
  The code reads the column without looking for it first, as it does for every other
  filter key: on the one-column table \<open>sectors_only\<close> the call raises KeyError.
\<close>

theorem C3_missing_activity_column_raises:
  "get_filtered_data ascii_lib sectors_only (Some ''cerco'') [] = Inl KeyError"
  by (simp add: get_filtered_data_def unify_step_def activity_step_def sectors_only_def)




text \<open>
  C4: when the table has the province column and the filter set carries a mapping by
  province, the view has the schema of the table, and its rows come, in order, from
  rows of the table: each differs from its row of origin in the sector column at most,
  and not at all when the province of the row is not named in the mapping.
\<close>

theorem C4_unification_scoped:
  assumes prov: "''nombre_prov'' \<in> set (columns data)"
      and entry: "map_of fs key_by_province = Some (MappingByProvince m)"
      and view: "get_filtered_data L data act fs = Inr view"
  shows "schema view = schema data
         \<and> (\<exists>orig. subseq orig (rows data) \<and> list_all2 (frame_ok m) orig (rows view))"
proof -
  obtain u a where u: "unify_step data fs = Inr u" and a: "activity_step L u act = Inr a"
    and v: "view = foldl apply_filter a fs"
    using view by (auto simp: get_filtered_data_def split: sum.splits)
  have key: "key_by_province \<in> set (map fst fs)"
    using entry by (metis map_of_eq_None_iff option.discI set_map)
  have ne: "fs \<noteq> []" using key by auto
  have uu: "u = foldl unify_province data m \<or> u = data"
    using u prov entry key ne by (auto simp: unify_step_def split: if_splits)
  have su: "schema u = schema data"
    using uu by (auto simp: foldl_unify_province_schema)
  have fu: "list_all2 (frame_ok m) (rows data) (rows u)"
    using uu
  proof
    assume "u = foldl unify_province data m"
    then show ?thesis by (simp add: foldl_unify_province_frame)
  next
    assume "u = data"
    then show ?thesis by (simp add: frame_ok_def list_all2_refl)
  qed
  obtain Q where ra: "rows a = filter Q (rows u)" and sa: "schema a = schema u"
  proof -
    have "\<exists>Q. rows a = filter Q (rows u) \<and> schema a = schema u"
      using a
      by (auto simp: activity_step_def split: option.splits if_splits dtype.splits
          intro: exI[of _ "\<lambda>r. True"])
    then show ?thesis using that by blast
  qed
  have rv: "rows view = filter (\<lambda>r. Q r \<and> passes a fs r) (rows u)"
    by (simp add: v foldl_apply_filter ra conj_commute)
  have sv: "schema view = schema data"
    by (simp add: v foldl_apply_filter sa su)
  from list_all2_filter_subseq[OF fu, of "\<lambda>r. Q r \<and> passes a fs r"] rv sv
  show ?thesis by simp
qed

theorem C4_unification_scoped_witness:
  "''nombre_prov'' \<in> set (columns visits)
   \<and> map_of [(key_by_province, MappingByProvince by_province)] key_by_province
       = Some (MappingByProvince by_province)
   \<and> get_filtered_data ascii_lib visits (Some ''cerco'')
         [(key_by_province, MappingByProvince by_province)] = Inr visits_view
   \<and> schema visits_view = schema visits
   \<and> (\<exists>orig. subseq orig (rows visits) \<and> list_all2 (frame_ok by_province) orig (rows visits_view))"
proof -
  have p: "''nombre_prov'' \<in> set (columns visits)"
    by (simp add: columns_def visits_def)
  have e: "map_of [(key_by_province, MappingByProvince by_province)] key_by_province
       = Some (MappingByProvince by_province)" by simp
  have v: "get_filtered_data ascii_lib visits (Some ''cerco'')
         [(key_by_province, MappingByProvince by_province)] = Inr visits_view"
    by (simp add: run_defs visits_def visits_view_def by_province_def)
  show ?thesis
    using C4_unification_scoped[OF p e v] p e v by simp
qed

text \<open>
  C8: adding an equality filter on a key that the filter set does not hold yet (and that
  is not one of the two unification keys) to a call that returns a view gives a call
  that returns a view with at most as many rows.
\<close>

theorem C8_filter_monotone:
  assumes fresh: "k \<notin> set (map fst fs)"
      and ord: "k \<noteq> key_legacy" "k \<noteq> key_by_province"
      and view: "get_filtered_data L data act fs = Inr view"
  shows "\<exists>view'. get_filtered_data L data act (AList.update k (Scalar v) fs) = Inr view'
           \<and> length (rows view') \<le> length (rows view)"
proof -
  have nr: "\<not> reserved k" using ord by (simp add: reserved_def)
  obtain u a where u: "unify_step data fs = Inr u" and a: "activity_step L u act = Inr a"
    and v: "view = foldl apply_filter a fs"
    using view by (auto simp: get_filtered_data_def split: sum.splits)
  have "get_filtered_data L data act (AList.update k (Scalar v) fs)
          = Inr (apply_filter view (k, Scalar v))"
    using unify_step_append[OF nr, of data "Scalar v" fs]
    by (simp add: get_filtered_data_def u a update_fresh[OF fresh] v)
  moreover have "length (rows (apply_filter view (k, Scalar v))) \<le> length (rows view)"
    by (simp add: apply_filter_rows)
  ultimately show ?thesis by blast
qed

theorem C8_filter_monotone_witness:
  "''viv_positiva'' \<notin> set (map fst [(''sector'', Values [Str ''A''])])
   \<and> ''viv_positiva'' \<noteq> key_legacy \<and> ''viv_positiva'' \<noteq> key_by_province
   \<and> get_filtered_data ascii_lib houses None [(''sector'', Values [Str ''A''])]
       = Inr (houses\<lparr>rows := [row_of [(''viv_positiva'', Num 0), (''sector'', Str ''A'')],
                               row_of [(''viv_positiva'', Num 1), (''sector'', Str ''A'')]]\<rparr>)
   \<and> (\<exists>view'. get_filtered_data ascii_lib houses None
                  (AList.update ''viv_positiva'' (Scalar (Num 1)) [(''sector'', Values [Str ''A''])])
                = Inr view'
              \<and> length (rows view') \<le> 2)"
proof -
  have f: "''viv_positiva'' \<notin> set (map fst [(''sector'', Values [Str ''A''])])" by simp
  have k1: "''viv_positiva'' \<noteq> key_legacy" by (simp add: key_legacy_def)
  have k2: "''viv_positiva'' \<noteq> key_by_province" by (simp add: key_by_province_def)
  have v: "get_filtered_data ascii_lib houses None [(''sector'', Values [Str ''A''])]
       = Inr (houses\<lparr>rows := [row_of [(''viv_positiva'', Num 0), (''sector'', Str ''A'')],
                               row_of [(''viv_positiva'', Num 1), (''sector'', Str ''A'')]]\<rparr>)"
    by (simp add: run_defs houses_def)
  show ?thesis
    using C8_filter_monotone[OF f k1 k2 v, of "Num 1"] f k1 k2 v by (simp add: numeral_2_eq_2)
qed

section \<open>Claim on the render guard\<close>





section \<open>Claim on the effectiveness of the cerco\<close>

text \<open>Every turn of the loop over the facilities succeeds when the columns are there.\<close>

lemma collect_all_Inr: "(\<And>x. x \<in> set xs \<Longrightarrow> f x = Inr (g x)) \<Longrightarrow> collect f xs = Inr (map g xs)"
  by (induction xs) auto

lemma isin_indicator:
  "isin c [Num 1, Num 2, Num 3, Num 4] = list_ex (\<lambda>v. py_eq c (Num v)) [1, 2, 3, 4]"
  by (cases c) (auto simp: isin_def)

lemma facility_entry_expected:
  assumes "set cerco_columns \<subseteq> set (columns data)"
  shows "facility_entry data f = Inr (expected_entry data f)"
proof -
  have c: "''cod_renipress'' \<in> set (columns data)"
    "''atencion_vivienda_indicador'' \<in> set (columns data)"
    "''viv_positiva'' \<in> set (columns data)"
    using assms by (auto simp: cerco_columns_def)
  have d: "real (max 1 (positives data f)) \<noteq> 0" by simp
  show ?thesis
    unfolding facility_entry_def Let_def expected_entry_def
    using c d
    by (simp add: truediv_def isin_indicator attended_def positives_def facility_rows_def
        first_code_def del: of_nat_max)
qed

text \<open>
  C6: an empty view gives the empty result. A view that is not empty and has the four
  columns the function reads gives, without raising, one entry per distinct facility in
  order of first appearance: \<open>total_houses\<close> counts the rows of the facility whose
  indicator is 1, 2, 3 or 4, \<open>positive_houses\<close> those with positivity flag 1 and indicator
  1, and \<open>effectiveness_percentage\<close> is (total - positive) / total * 100, or 0 when the
  total is 0; no division by zero is reached.
\<close>

theorem C6_cerco_effectiveness:
  "(empty_frame data \<longrightarrow> calculate_cerco_effectiveness data = Inr [])
   \<and> (\<not> empty_frame data \<and> set cerco_columns \<subseteq> set (columns data) \<longrightarrow>
        calculate_cerco_effectiveness data
          = Inr (map (expected_entry data) (unique (column_values data ''localidad_eess''))))"
proof (intro conjI impI)
  assume "empty_frame data"
  then show "calculate_cerco_effectiveness data = Inr []"
    by (simp add: calculate_cerco_effectiveness_def)
next
  assume a: "\<not> empty_frame data \<and> set cerco_columns \<subseteq> set (columns data)"
  then have l: "''localidad_eess'' \<in> set (columns data)"
    by (auto simp: cerco_columns_def)
  have "collect (facility_entry data) (unique (column_values data ''localidad_eess''))
          = Inr (map (expected_entry data) (unique (column_values data ''localidad_eess'')))"
    using a by (intro collect_all_Inr facility_entry_expected) simp
  then show "calculate_cerco_effectiveness data
          = Inr (map (expected_entry data) (unique (column_values data ''localidad_eess'')))"
    using a l by (simp add: calculate_cerco_effectiveness_def)
qed

theorem C6_cerco_effectiveness_witness:
  "empty_frame (cerco_view\<lparr>rows := []\<rparr>)
   \<and> calculate_cerco_effectiveness (cerco_view\<lparr>rows := []\<rparr>) = Inr []
   \<and> \<not> empty_frame cerco_view \<and> set cerco_columns \<subseteq> set (columns cerco_view)
   \<and> calculate_cerco_effectiveness cerco_view
       = Inr [\<lparr>cod_renipress = Num 7259, localidad_eess = Str ''LA UNION'', total_houses = 4,
                positive_houses = 1, effectiveness_percentage = 75, intervention_score = 8\<rparr>,
              \<lparr>cod_renipress = Num 1345, localidad_eess = Str ''SAN JOSE'', total_houses = 0,
                positive_houses = 0, effectiveness_percentage = 0, intervention_score = 0\<rparr>]"
proof -
  have e: "empty_frame (cerco_view\<lparr>rows := []\<rparr>)" by (simp add: empty_frame_def)
  have n: "\<not> empty_frame cerco_view \<and> set cerco_columns \<subseteq> set (columns cerco_view)"
    by (simp add: empty_frame_def cerco_view_def cerco_columns_def columns_def)
  have u: "unique (column_values cerco_view ''localidad_eess'') = [Str ''LA UNION'', Str ''SAN JOSE'']"
    by (simp add: unique_def column_values_def cerco_view_def row_of_def)
  have x1: "expected_entry cerco_view (Str ''LA UNION'')
      = \<lparr>cod_renipress = Num 7259, localidad_eess = Str ''LA UNION'', total_houses = 4,
                positive_houses = 1, effectiveness_percentage = 75, intervention_score = 8\<rparr>"
    by (simp add: expected_entry_def attended_def positives_def first_code_def facility_rows_def
        cerco_view_def row_of_def)
  have x2: "expected_entry cerco_view (Str ''SAN JOSE'')
      = \<lparr>cod_renipress = Num 1345, localidad_eess = Str ''SAN JOSE'', total_houses = 0,
                positive_houses = 0, effectiveness_percentage = 0, intervention_score = 0\<rparr>"
    by (simp add: expected_entry_def attended_def positives_def first_code_def facility_rows_def
        cerco_view_def row_of_def)
  show ?thesis
    using C6_cerco_effectiveness[of "cerco_view\<lparr>rows := []\<rparr>"] C6_cerco_effectiveness[of cerco_view]
      e n u x1 x2 by simp
qed

section \<open>Claim on the similar sectors\<close>

text \<open>\<open>min(group, key=len)\<close> of a group that is not empty; the loops keep the groups.\<close>

lemma shortest_first_shortest: "g \<noteq> [] \<Longrightarrow> first_shortest (shortest g) g"
proof (induction g rule: shortest.induct)
  case 1
  then show ?case by simp
next
  case (2 x)
  show ?case unfolding first_shortest_def by (rule exI[of _ "[]"]) simp
next
  case (3 x y ys)
  then obtain pre post where g: "y # ys = pre @ shortest (y # ys) # post"
    and p: "\<forall>m\<in>set pre. length (shortest (y # ys)) < length m"
    and q: "\<forall>m\<in>set post. length (shortest (y # ys)) \<le> length m"
    unfolding first_shortest_def by auto
  show ?case
  proof (cases "length (shortest (y # ys)) < length x")
    case True
    have s: "shortest (x # y # ys) = shortest (y # ys)" using True by (simp add: Let_def)
    have "x # y # ys = (x # pre) @ shortest (y # ys) # post" using g by simp
    moreover have "\<forall>m\<in>set (x # pre). length (shortest (y # ys)) < length m"
      using True p by simp
    ultimately show ?thesis
      unfolding first_shortest_def s using q by blast
  next
    case False
    have all: "\<forall>m\<in>set (y # ys). length x \<le> length m"
    proof
      fix m assume "m \<in> set (y # ys)"
      then have "m \<in> set pre \<or> m = shortest (y # ys) \<or> m \<in> set post"
        by (subst (asm) g) auto
      then show "length x \<le> length m" using p q False by auto
    qed
    have s: "shortest (x # y # ys) = x" using False by (simp add: Let_def)
    show ?thesis
      unfolding first_shortest_def s
      using all by (intro exI[of _ "[]"] exI[of _ "y # ys"]) simp
  qed
qed

lemma set_update_subset: "set (AList.update k v al) \<subseteq> insert (k, v) (set al)"
  by (induction al) auto

lemma collect_similar_nonempty:
  "fst gp \<noteq> [] \<Longrightarrow> fst (collect_similar L th s rest gp) \<noteq> []"
  by (induction rest arbitrary: gp) auto

lemma group_sectors_groups:
  assumes "\<forall>kg\<in>set groups. 2 \<le> length (snd kg) \<and> first_shortest (fst kg) (snd kg)"
  shows "\<forall>kg\<in>set (group_sectors L th xs processed groups).
           2 \<le> length (snd kg) \<and> first_shortest (fst kg) (snd kg)"
  using assms
proof (induction xs arbitrary: processed groups)
  case Nil
  then show ?case by simp
next
  case (Cons s1 rest)
  show ?case
  proof (cases "s1 \<in> processed")
    case True
    then show ?thesis using Cons by simp
  next
    case False
    define gp where "gp = collect_similar L th s1 rest ([s1], insert s1 processed)"
    have ne: "fst gp \<noteq> []" unfolding gp_def by (rule collect_similar_nonempty) simp
    define groups' where "groups' =
      (if length (fst gp) > 1 then AList.update (shortest (fst gp)) (fst gp) groups else groups)"
    have inv: "\<forall>kg\<in>set groups'. 2 \<le> length (snd kg) \<and> first_shortest (fst kg) (snd kg)"
    proof (cases "length (fst gp) > 1")
      case True
      have "set groups' \<subseteq> insert (shortest (fst gp), fst gp) (set groups)"
        using True by (simp add: groups'_def set_update_subset)
      moreover have "first_shortest (shortest (fst gp)) (fst gp)"
        using ne by (rule shortest_first_shortest)
      ultimately show ?thesis using True Cons.prems by auto
    next
      case False
      then show ?thesis using Cons.prems by (simp add: groups'_def)
    qed
    have "group_sectors L th (s1 # rest) processed groups
            = group_sectors L th rest (snd gp) groups'"
      using False by (simp add: gp_def groups'_def Let_def)
    then show ?thesis using Cons.IH[OF inv] by simp
  qed
qed

text \<open>
  C9: every group that \<open>find_similar_sectors\<close> reports has at least two members, and its
  key is its shortest member, the first one among members of that length. Two labels
  that are not empty and have the same normalized form have similarity exactly 1, which
  meets every threshold of the documented range (up to 1).
\<close>

theorem C9_similar_groups:
  "(\<forall>kg\<in>set (find_similar_sectors L threshold sectors_list).
       2 \<le> length (snd kg) \<and> first_shortest (fst kg) (snd kg))
   \<and> (sector1 \<noteq> [] \<and> sector2 \<noteq> []
        \<and> normalize_sector_name L sector1 = normalize_sector_name L sector2
      \<longrightarrow> calculate_similarity L sector1 sector2 = 1
          \<and> (threshold \<le> 1 \<longrightarrow> threshold \<le> calculate_similarity L sector1 sector2))"
proof
  show "\<forall>kg\<in>set (find_similar_sectors L threshold sectors_list).
       2 \<le> length (snd kg) \<and> first_shortest (fst kg) (snd kg)"
    unfolding find_similar_sectors_def Let_def
    using group_sectors_groups[of "[]"] by auto
next
  show "sector1 \<noteq> [] \<and> sector2 \<noteq> []
        \<and> normalize_sector_name L sector1 = normalize_sector_name L sector2
      \<longrightarrow> calculate_similarity L sector1 sector2 = 1
          \<and> (threshold \<le> 1 \<longrightarrow> threshold \<le> calculate_similarity L sector1 sector2)"
    by (simp add: calculate_similarity_def)
qed

text \<open>
  A run on five labels, one of them blank.
\<close>

lemma ascii_normalize:
  "normalize_sector_name ascii_lib ''SAN JUAN.'' = ''SAN JUAN''"
  "normalize_sector_name ascii_lib ''SAN JUAN'' = ''SAN JUAN''"
  "normalize_sector_name ascii_lib ''san juan'' = ''SAN JUAN''"
  "normalize_sector_name ascii_lib ''LAS LOMAS'' = ''LAS LOMAS''"
  by (simp_all add: normalize_sector_name_def ascii_lib_def ascii_upper_def)

lemma ascii_sim:
  "calculate_similarity ascii_lib ''SAN JUAN.'' ''SAN JUAN'' = 1"
  "calculate_similarity ascii_lib ''SAN JUAN.'' ''san juan'' = 1"
  "calculate_similarity ascii_lib ''SAN JUAN.'' ''LAS LOMAS'' = 0"
  by (simp_all add: calculate_similarity_def ascii_normalize Let_def) (simp add: ascii_lib_def)

lemma valid: "filter (\<lambda>s. str_strip ascii_lib s \<noteq> []) sector_labels = [''SAN JUAN.'', ''SAN JUAN'', ''LAS LOMAS'', ''san juan'']"
  by (simp add: sector_labels_def ascii_lib_def)

lemma groups_run:
  "find_similar_sectors ascii_lib (8 / 10) sector_labels
     = [(''SAN JUAN'', [''SAN JUAN.'', ''SAN JUAN'', ''san juan''])]"
proof -
  have "sector_labels \<noteq> []" by (simp add: sector_labels_def)
  then show ?thesis
    unfolding find_similar_sectors_def Let_def valid
    by (simp add: ascii_sim)
qed

theorem C9_similar_groups_witness:
  "find_similar_sectors ascii_lib (8 / 10) sector_labels
     = [(''SAN JUAN'', [''SAN JUAN.'', ''SAN JUAN'', ''san juan''])]
   \<and> 2 \<le> length [''SAN JUAN.'', ''SAN JUAN'', ''san juan'']
   \<and> first_shortest ''SAN JUAN'' [''SAN JUAN.'', ''SAN JUAN'', ''san juan'']
   \<and> ''SAN JUAN.'' \<noteq> [] \<and> ''san juan'' \<noteq> []
   \<and> normalize_sector_name ascii_lib ''SAN JUAN.'' = normalize_sector_name ascii_lib ''san juan''
   \<and> calculate_similarity ascii_lib ''SAN JUAN.'' ''san juan'' = 1
   \<and> (8 / 10 :: real) \<le> 1
   \<and> 8 / 10 \<le> calculate_similarity ascii_lib ''SAN JUAN.'' ''san juan''"
proof -
  have n: "normalize_sector_name ascii_lib ''SAN JUAN.'' = normalize_sector_name ascii_lib ''san juan''"
    by (simp add: ascii_normalize)
  show ?thesis
    using C9_similar_groups[of ascii_lib "8 / 10" sector_labels "''SAN JUAN.''" "''san juan''"]
      groups_run n
    by simp
qed

section \<open>Claim on the unique values\<close>

text \<open>
  The unique values of a column: the empty list for a name that is no column, and
  otherwise the distinct values of the column that are not missing.
\<close>

lemma get_unique_values_absent:
  "column_name \<notin> set (columns data) \<Longrightarrow> get_unique_values L data column_name sorted_order = []"
  by (simp add: get_unique_values_def)

lemma get_unique_values_set:
  assumes "column_name \<in> set (columns data)"
  shows "set (get_unique_values L data column_name sorted_order)
           = set (column_values data column_name) - {Null}"
    and "distinct (get_unique_values L data column_name sorted_order)"
  using assms by (auto simp: get_unique_values_def Let_def unique_def)

text \<open>
  C10: for a column that exists the distinct values come back sorted, in numeric order
  first and in string order as the fallback. The fallback runs only when the key of
  line 248 raises; for a value that is not a number the key is infinity and nothing is
  raised, so text values stay in order of first appearance. The sectors SUR, NORTE,
  CENTRO come back in that order, where string order is CENTRO, NORTE, SUR.
\<close>

theorem C10_text_values_not_sorted:
  "get_unique_values ascii_lib zones ''sector'' True = [Str ''SUR'', Str ''NORTE'', Str ''CENTRO'']
   \<and> sort_key (cell_str ascii_lib) [Str ''SUR'', Str ''NORTE'', Str ''CENTRO'']
       = [Str ''CENTRO'', Str ''NORTE'', Str ''SUR'']"
proof -
  have u: "unique (filter (\<lambda>c. c \<noteq> Null) (column_values zones ''sector''))
             = [Str ''SUR'', Str ''NORTE'', Str ''CENTRO'']"
    by (simp add: unique_def column_values_def zones_def row_of_def)
  have k: "numeric_key ascii_lib (Str ''SUR'') = Some (True, 0)"
    "numeric_key ascii_lib (Str ''NORTE'') = Some (True, 0)"
    "numeric_key ascii_lib (Str ''CENTRO'') = Some (True, 0)"
    by (simp_all add: numeric_key_def cell_str_def is_digit_string_def)
  have c: "''sector'' \<in> set (columns zones)" by (simp add: columns_def zones_def)
  have a: "get_unique_values ascii_lib zones ''sector'' True
             = [Str ''SUR'', Str ''NORTE'', Str ''CENTRO'']"
    unfolding get_unique_values_def Let_def u using c by (simp add: k del: not_None_eq)
  have b: "sort_key (cell_str ascii_lib) [Str ''SUR'', Str ''NORTE'', Str ''CENTRO'']
       = [Str ''CENTRO'', Str ''NORTE'', Str ''SUR'']"
    by (simp add: cell_str_def)
  show ?thesis using a b by simp
qed

section \<open>Claims on normalization\<close>

text \<open>Rows changed in two sets of columns, and assignments to one column.\<close>

lemma upd_cols_upd_cols:
  assumes "\<And>x. g (g x) = g x"
  shows "upd_cols g B (upd_cols g A r) = upd_cols g (A \<union> B) r"
  using assms by (auto simp: upd_cols_def fun_eq_iff)

lemma upd_cols_empty [simp]: "upd_cols g {} r = r"
  by (simp add: upd_cols_def)

lemma assign_schema: "schema (assign_column c t f d) = AList.update c t (schema d)"
  by (simp add: assign_column_def set_dtype_def)

lemma assign_rows: "rows (assign_column c t f d) = map (\<lambda>r. r(c := f r)) (rows d)"
  by (simp add: assign_column_def)

lemma assign_columns:
  "columns (assign_column c t f d) = (if c \<in> set (columns d) then columns d else columns d @ [c])"
  by (simp add: columns_def assign_schema update_keys)

lemma assign_rows_upd:
  "rows (assign_column c t (\<lambda>r. g (r c)) d) = map (upd_cols g {c}) (rows d)"
  by (auto simp: assign_rows upd_cols_def fun_eq_iff)

lemma assign_map_of:
  "map_of (schema (assign_column c t f d)) = (map_of (schema d))(c \<mapsto> t)"
  by (simp add: assign_schema update_conv')

text \<open>A loop that assigns the columns of a list that the table has.\<close>

lemma foldl_assign_present:
  assumes idem: "\<And>x. g (g x) = g x"
  shows "columns (foldl (\<lambda>d col. if col \<in> set (columns d)
                  then assign_column col t (\<lambda>r. g (r col)) d else d) d cs) = columns d
     \<and> map_of (schema (foldl (\<lambda>d col. if col \<in> set (columns d)
                  then assign_column col t (\<lambda>r. g (r col)) d else d) d cs))
         = (\<lambda>c. if c \<in> set cs \<and> c \<in> set (columns d) then Some t else map_of (schema d) c)
     \<and> rows (foldl (\<lambda>d col. if col \<in> set (columns d)
                  then assign_column col t (\<lambda>r. g (r col)) d else d) d cs)
         = map (upd_cols g (set cs \<inter> set (columns d))) (rows d)"
proof (induction cs arbitrary: d)
  case Nil
  show ?case by (simp add: map_idI)
next
  case (Cons c cs)
  let ?step = "\<lambda>d col. if col \<in> set (columns d)
                  then assign_column col t (\<lambda>r. g (r col)) d else d"
  define d' where "d' = ?step d c"
  have cd: "columns d' = columns d" by (simp add: d'_def assign_columns)
  have md: "map_of (schema d') = (\<lambda>x. if x = c \<and> c \<in> set (columns d) then Some t
                                       else map_of (schema d) x)"
    by (auto simp: d'_def assign_map_of fun_eq_iff)
  have rd: "rows d' = map (upd_cols g ({c} \<inter> set (columns d))) (rows d)"
    by (simp add: d'_def assign_rows_upd map_idI)
  have s: "({c} \<inter> set (columns d)) \<union> (set cs \<inter> set (columns d))
             = set (c # cs) \<inter> set (columns d)" by auto
  have f: "foldl ?step d (c # cs) = foldl ?step d' cs" by (simp add: d'_def)
  have ih1: "columns (foldl ?step d' cs) = columns d'"
    and ih2: "map_of (schema (foldl ?step d' cs))
         = (\<lambda>x. if x \<in> set cs \<and> x \<in> set (columns d') then Some t else map_of (schema d') x)"
    and ih3: "rows (foldl ?step d' cs) = map (upd_cols g (set cs \<inter> set (columns d'))) (rows d')"
    using Cons.IH[of d'] by blast+
  have g1: "columns (foldl ?step d (c # cs)) = columns d"
    unfolding f ih1 cd by (rule refl)
  have g2: "map_of (schema (foldl ?step d (c # cs)))
         = (\<lambda>x. if x \<in> set (c # cs) \<and> x \<in> set (columns d) then Some t else map_of (schema d) x)"
    unfolding f ih2 cd md by (auto simp: fun_eq_iff)
  have g3: "rows (foldl ?step d (c # cs)) = map (upd_cols g (set (c # cs) \<inter> set (columns d))) (rows d)"
    unfolding f ih3 cd rd map_map comp_def upd_cols_upd_cols[OF idem] s by (rule refl)
  show ?case using g1 g2 g3 by blast
qed


lemma foldl_assign_typed:
  assumes idem: "\<And>x. g (g x) = g x"
      and typed: "\<forall>c\<in>set cs. map_of (schema d) c = Some t"
  shows "schema (foldl (\<lambda>d col. if Q col then assign_column col t (\<lambda>r. g (r col)) d else d) d cs)
           = schema d
     \<and> rows (foldl (\<lambda>d col. if Q col then assign_column col t (\<lambda>r. g (r col)) d else d) d cs)
         = map (upd_cols g {c \<in> set cs. Q c}) (rows d)"
  using typed
proof (induction cs arbitrary: d)
  case Nil
  show ?case by (simp add: map_idI)
next
  case (Cons c cs)
  let ?step = "\<lambda>d col. if Q col then assign_column col t (\<lambda>r. g (r col)) d else d"
  define d' where "d' = ?step d c"
  have sd: "schema d' = schema d"
    using Cons.prems by (simp add: d'_def assign_schema update_triv)
  have rd: "rows d' = map (upd_cols g {x. x = c \<and> Q c}) (rows d)"
    by (simp add: d'_def assign_rows_upd map_idI)
  have f: "foldl ?step d (c # cs) = foldl ?step d' cs" by (simp add: d'_def)
  have ih1: "schema (foldl ?step d' cs) = schema d'"
    and ih2: "rows (foldl ?step d' cs) = map (upd_cols g {c \<in> set cs. Q c}) (rows d')"
    using Cons.IH[of d'] Cons.prems sd by auto
  have s: "{x. x = c \<and> Q c} \<union> {c \<in> set cs. Q c} = {x \<in> set (c # cs). Q x}" by auto
  have g1: "schema (foldl ?step d (c # cs)) = schema d"
    unfolding f ih1 sd by (rule refl)
  have g2: "rows (foldl ?step d (c # cs)) = map (upd_cols g {x \<in> set (c # cs). Q x}) (rows d)"
    unfolding f ih2 rd map_map comp_def upd_cols_upd_cols[OF idem] s by (rule refl)
  show ?case using g1 g2 by blast
qed

text \<open>The steps of \<open>process_data\<close>, one by one.\<close>

lemma replace_chain:
  "replace_value ''nan'' (replace_value '' '' (replace_value [] d))
     = d\<lparr>rows := map (\<lambda>r c. blank (r c)) (rows d)\<rparr>"
  by (auto simp: replace_value_def blank_def fun_eq_iff)

lemma coerce_datetime_idem: "coerce_datetime L (coerce_datetime L x) = coerce_datetime L x"
  by (simp add: coerce_datetime_def split: cell.splits option.splits)

lemma numeric_idem:
  "fillna (Num 0) (coerce_numeric L (fillna (Num 0) (coerce_numeric L x)))
     = fillna (Num 0) (coerce_numeric L x)"
  by (simp add: coerce_numeric_def fillna_def split: cell.splits option.splits)

lemma clean_text_Str: "\<exists>s. clean_text L x = Str s \<and> s \<noteq> ''nan'' \<and> s \<noteq> ''NaN'' \<and> s \<noteq> ''None''"
  by (simp add: clean_text_def replace_cell_def astype_str_def)

lemma clean_text_idem: "clean_text L (clean_text L x) = clean_text L x"
  by (simp add: clean_text_def replace_cell_def astype_str_def fillna_def cell_str_def)

lemma convert_dates_obs:
  "columns (convert_dates L d) = columns d"
  "map_of (schema (convert_dates L d))
     = (\<lambda>c. if c \<in> set date_columns \<and> c \<in> set (columns d) then Some Datetime
            else map_of (schema d) c)"
  "rows (convert_dates L d)
     = map (upd_cols (coerce_datetime L) (set date_columns \<inter> set (columns d))) (rows d)"
  unfolding convert_dates_def
  using foldl_assign_present[of "coerce_datetime L" Datetime d date_columns, OF coerce_datetime_idem]
  by blast+

lemma assign_twice:
  "assign_column c t (\<lambda>r. g2 (r c)) (assign_column c t (\<lambda>r. g1 (r c)) d)
     = assign_column c t (\<lambda>r. g2 (g1 (r c))) d"
  by (simp add: assign_column_def set_dtype_def comp_def)

lemma convert_critical_obs:
  "columns (convert_critical L d) = columns d"
  "map_of (schema (convert_critical L d))
     = (\<lambda>c. if c \<in> set critical_numeric_columns \<and> c \<in> set (columns d) then Some Number
            else map_of (schema d) c)"
  "rows (convert_critical L d)
     = map (upd_cols (\<lambda>x. fillna (Num 0) (coerce_numeric L x))
              (set critical_numeric_columns \<inter> set (columns d))) (rows d)"
  unfolding convert_critical_def assign_twice
  using foldl_assign_present[of "\<lambda>x. fillna (Num 0) (coerce_numeric L x)" Number d
      critical_numeric_columns, OF numeric_idem]
  by blast+

lemma fill_numeric_obs:
  "schema (fill_numeric d) = schema d"
  "rows (fill_numeric d) = map (upd_cols (fillna (Num 0)) (set (select_dtypes [Number] d))) (rows d)"
  by (auto simp: fill_numeric_def Let_def upd_cols_def)

lemma select_dtypes_iff:
  assumes "distinct (columns d)"
  shows "c \<in> set (select_dtypes [t] d) \<longleftrightarrow> map_of (schema d) c = Some t"
proof -
  have "distinct (map fst (schema d))" using assms by (simp add: columns_def)
  then have "map_of (schema d) c = Some t \<longleftrightarrow> (c, t) \<in> set (schema d)" by simp
  then show ?thesis by (force simp: select_dtypes_def)
qed

lemma fill_text_obs:
  assumes "distinct (columns d)"
  shows "schema (fill_text L d) = schema d"
    and "rows (fill_text L d)
           = map (upd_cols (clean_text L)
                    {c. map_of (schema d) c = Some Object \<and> c \<notin> set date_columns}) (rows d)"
proof -
  have typed: "\<forall>c\<in>set (select_dtypes [Object] d). map_of (schema d) c = Some Object"
    using select_dtypes_iff[OF assms] by blast
  have s: "{c \<in> set (select_dtypes [Object] d). c \<notin> set date_columns}
             = {c. map_of (schema d) c = Some Object \<and> c \<notin> set date_columns}"
    using select_dtypes_iff[OF assms] by blast
  show "schema (fill_text L d) = schema d"
    unfolding fill_text_def
    using foldl_assign_typed[of "clean_text L" "select_dtypes [Object] d" d Object
        "\<lambda>c. c \<notin> set date_columns", OF clean_text_idem typed] by blast
  show "rows (fill_text L d)
           = map (upd_cols (clean_text L)
                    {c. map_of (schema d) c = Some Object \<and> c \<notin> set date_columns}) (rows d)"
    unfolding fill_text_def
    using foldl_assign_typed[of "clean_text L" "select_dtypes [Object] d" d Object
        "\<lambda>c. c \<notin> set date_columns", OF clean_text_idem typed] s by simp
qed

lemma column_names:
  "''year'' \<notin> set date_columns" "''year'' \<notin> set critical_numeric_columns"
  "''fecha_inspeccion'' \<in> set date_columns"
  "''fecha_inspeccion'' \<notin> set critical_numeric_columns"
  "set date_columns \<inter> set critical_numeric_columns = {}"
  by (simp_all add: date_columns_def critical_numeric_columns_def)

lemma extract_year_obs:
  "columns (extract_year L d)
     = (if ''fecha_inspeccion'' \<in> set (columns d) \<and> ''year'' \<notin> set (columns d)
        then columns d @ [''year''] else columns d)"
  "map_of (schema (extract_year L d))
     = (\<lambda>c. if c = ''year'' \<and> ''fecha_inspeccion'' \<in> set (columns d) then Some Number
            else map_of (schema d) c)"
  "rows (extract_year L d)
     = map (\<lambda>r c. if c = ''year'' \<and> ''fecha_inspeccion'' \<in> set (columns d)
                   then year_cell L (r ''fecha_inspeccion'') else r c) (rows d)"
  by (auto simp: extract_year_def assign_columns assign_map_of assign_rows fun_eq_iff map_idI)

text \<open>
  What \<open>process_data\<close> does to a table with distinct column names: the column \<open>year\<close>
  is appended when the inspection date is there and \<open>year\<close> is not, the dtypes are those
  of \<open>norm_dtype\<close>, and every row is changed by \<open>norm_row\<close>.
\<close>

lemma process_data_obs:
  assumes dist: "distinct (columns d)"
  shows "columns (process_data L d)
           = (if ''fecha_inspeccion'' \<in> set (columns d) \<and> ''year'' \<notin> set (columns d)
              then columns d @ [''year''] else columns d)"
    and "map_of (schema (process_data L d)) = norm_dtype d"
    and "rows (process_data L d) = map (norm_row L d) (rows d)"
proof -
  define d1 where "d1 = d\<lparr>rows := map (\<lambda>r c. blank (r c)) (rows d)\<rparr>"
  define d2 where "d2 = convert_dates L d1"
  define d3 where "d3 = extract_year L d2"
  define d4 where "d4 = convert_critical L d3"
  define d5 where "d5 = fill_numeric d4"
  have p: "process_data L d = fill_text L d5"
    by (simp add: process_data_def replace_chain d1_def d2_def d3_def d4_def d5_def)
  have c1: "columns d1 = columns d" and s1: "schema d1 = schema d"
    and r1: "rows d1 = map (\<lambda>r c. blank (r c)) (rows d)"
    by (simp_all add: d1_def columns_def)
  have c2: "columns d2 = columns d"
    and m2: "map_of (schema d2) = (\<lambda>c. if c \<in> set date_columns \<and> c \<in> set (columns d)
                then Some Datetime else map_of (schema d) c)"
    and r2: "rows d2 = map (upd_cols (coerce_datetime L) (set date_columns \<inter> set (columns d))) (rows d1)"
    unfolding d2_def convert_dates_obs c1 s1 by (rule refl)+
  have c3: "columns d3 = (if ''fecha_inspeccion'' \<in> set (columns d) \<and> ''year'' \<notin> set (columns d)
              then columns d @ [''year''] else columns d)"
    and m3: "map_of (schema d3) = (\<lambda>c. if c = ''year'' \<and> ''fecha_inspeccion'' \<in> set (columns d)
                then Some Number else map_of (schema d2) c)"
    and r3: "rows d3 = map (\<lambda>r c. if c = ''year'' \<and> ''fecha_inspeccion'' \<in> set (columns d)
                   then year_cell L (r ''fecha_inspeccion'') else r c) (rows d2)"
    unfolding d3_def extract_year_obs c2 by (rule refl)+
  have dist3: "distinct (columns d3)" using dist by (simp add: c3)
  have k3: "set critical_numeric_columns \<inter> set (columns d3)
              = set critical_numeric_columns \<inter> set (columns d)"
    using column_names(2) by (auto simp: c3)
  have c4: "columns d4 = columns d3"
    and m4: "map_of (schema d4) = (\<lambda>c. if c \<in> set critical_numeric_columns \<and> c \<in> set (columns d3)
                then Some Number else map_of (schema d3) c)"
    and r4: "rows d4 = map (upd_cols (\<lambda>x. fillna (Num 0) (coerce_numeric L x))
              (set critical_numeric_columns \<inter> set (columns d))) (rows d3)"
    unfolding d4_def convert_critical_obs k3 by (rule refl)+
  have s5: "schema d5 = schema d4" and c5: "columns d5 = columns d4"
    and r5: "rows d5 = map (upd_cols (fillna (Num 0)) {c. map_of (schema d4) c = Some Number}) (rows d4)"
  proof -
    have "set (select_dtypes [Number] d4) = {c. map_of (schema d4) c = Some Number}"
      using select_dtypes_iff[of d4 _ Number] dist3 c4 by auto
    then show "rows d5 = map (upd_cols (fillna (Num 0)) {c. map_of (schema d4) c = Some Number}) (rows d4)"
      by (simp add: d5_def fill_numeric_obs)
  qed (simp_all add: d5_def fill_numeric_obs columns_def)
  have dist5: "distinct (columns d5)" using dist3 c4 c5 by simp
  have s6: "schema (process_data L d) = schema d4"
    and r6: "rows (process_data L d)
              = map (upd_cols (clean_text L)
                  {c. map_of (schema d4) c = Some Object \<and> c \<notin> set date_columns}) (rows d5)"
    unfolding p using fill_text_obs[OF dist5, of L] by (simp_all add: s5)
  have in_cols: "\<And>c. c \<in> set critical_numeric_columns \<and> c \<in> set (columns d3)
                  \<longleftrightarrow> c \<in> set critical_numeric_columns \<and> c \<in> set (columns d)"
    using k3 by blast
  have m4': "map_of (schema d4) = norm_dtype d"
    unfolding m4 m3 m2 norm_dtype_def in_cols
    using column_names by (auto simp: fun_eq_iff)
  show "columns (process_data L d)
           = (if ''fecha_inspeccion'' \<in> set (columns d) \<and> ''year'' \<notin> set (columns d)
              then columns d @ [''year''] else columns d)"
    using s6 c4 c3 by (simp add: columns_def)
  show "map_of (schema (process_data L d)) = norm_dtype d"
    by (simp add: s6 m4')
  have cell: "\<And>r. upd_cols (clean_text L) {c. norm_dtype d c = Some Object \<and> c \<notin> set date_columns}
            (upd_cols (fillna (Num 0)) {c. norm_dtype d c = Some Number}
              (upd_cols (\<lambda>x. fillna (Num 0) (coerce_numeric L x))
                 (set critical_numeric_columns \<inter> set (columns d))
                 (\<lambda>c. if c = ''year'' \<and> ''fecha_inspeccion'' \<in> set (columns d)
                      then year_cell L (upd_cols (coerce_datetime L) (set date_columns \<inter> set (columns d))
                              (\<lambda>c. blank (r c)) ''fecha_inspeccion'')
                      else upd_cols (coerce_datetime L) (set date_columns \<inter> set (columns d))
                              (\<lambda>c. blank (r c)) c)))
          = norm_row L d r"
  proof (rule ext)
    fix r c
    show "upd_cols (clean_text L) {c. norm_dtype d c = Some Object \<and> c \<notin> set date_columns}
            (upd_cols (fillna (Num 0)) {c. norm_dtype d c = Some Number}
              (upd_cols (\<lambda>x. fillna (Num 0) (coerce_numeric L x))
                 (set critical_numeric_columns \<inter> set (columns d))
                 (\<lambda>c. if c = ''year'' \<and> ''fecha_inspeccion'' \<in> set (columns d)
                      then year_cell L (upd_cols (coerce_datetime L) (set date_columns \<inter> set (columns d))
                              (\<lambda>c. blank (r c)) ''fecha_inspeccion'')
                      else upd_cols (coerce_datetime L) (set date_columns \<inter> set (columns d))
                              (\<lambda>c. blank (r c)) c))) c
          = norm_row L d r c"
    proof -
      have ff: "\<And>x. fillna (Num 0) (fillna (Num 0) x) = fillna (Num 0) x"
        by (simp add: fillna_def)
      consider (date) "c \<in> set date_columns" "c \<in> set (columns d)"
        | (year) "\<not> (c \<in> set date_columns \<and> c \<in> set (columns d))"
            "c = ''year''" "''fecha_inspeccion'' \<in> set (columns d)"
        | (crit) "\<not> (c \<in> set date_columns \<and> c \<in> set (columns d))"
            "\<not> (c = ''year'' \<and> ''fecha_inspeccion'' \<in> set (columns d))"
            "c \<in> set critical_numeric_columns" "c \<in> set (columns d)"
        | (rest) "\<not> (c \<in> set date_columns \<and> c \<in> set (columns d))"
            "\<not> (c = ''year'' \<and> ''fecha_inspeccion'' \<in> set (columns d))"
            "\<not> (c \<in> set critical_numeric_columns \<and> c \<in> set (columns d))"
        by blast
      then show ?thesis
      proof cases
        case date
        then have "c \<noteq> ''year''" "c \<notin> set critical_numeric_columns"
          using column_names by auto
        with date show ?thesis
          by (simp add: upd_cols_def norm_row_def norm_dtype_def)
      next
        case year
        then show ?thesis
          using column_names(1,2,3)
          by (simp add: upd_cols_def norm_row_def norm_dtype_def ff)
      next
        case crit
        then have "c \<notin> set date_columns" "c \<noteq> ''year''"
          using column_names by auto
        with crit show ?thesis
          by (simp add: upd_cols_def norm_row_def norm_dtype_def ff)
      next
        case rest
        have ny: "(c = ''year'' \<and> ''fecha_inspeccion'' \<in> set (columns d)) = False"
          using rest by simp
        have nd: "(c \<in> set date_columns \<and> c \<in> set (columns d)) = False"
          using rest by simp
        have nc: "(c \<in> set critical_numeric_columns \<and> c \<in> set (columns d)) = False"
          using rest by simp
        have nd': "c \<in> set date_columns \<Longrightarrow> c \<notin> set (columns d)"
          using rest by blast
        have dt: "norm_dtype d c = map_of (schema d) c"
          by (simp add: norm_dtype_def ny nd nc)
        have absent: "c \<notin> set (columns d) \<Longrightarrow> map_of (schema d) c = None"
          by (simp add: columns_def map_of_eq_None_iff)
        have lhs: "upd_cols (clean_text L) {c. norm_dtype d c = Some Object \<and> c \<notin> set date_columns}
            (upd_cols (fillna (Num 0)) {c. norm_dtype d c = Some Number}
              (upd_cols (\<lambda>x. fillna (Num 0) (coerce_numeric L x))
                 (set critical_numeric_columns \<inter> set (columns d))
                 (\<lambda>c. if c = ''year'' \<and> ''fecha_inspeccion'' \<in> set (columns d)
                      then year_cell L (upd_cols (coerce_datetime L) (set date_columns \<inter> set (columns d))
                              (\<lambda>c. blank (r c)) ''fecha_inspeccion'')
                      else upd_cols (coerce_datetime L) (set date_columns \<inter> set (columns d))
                              (\<lambda>c. blank (r c)) c))) c
          = (if map_of (schema d) c = Some Object \<and> c \<notin> set date_columns
             then clean_text L (if map_of (schema d) c = Some Number
                                then fillna (Num 0) (blank (r c)) else blank (r c))
             else if map_of (schema d) c = Some Number
                  then fillna (Num 0) (blank (r c)) else blank (r c))"
          by (simp add: upd_cols_def dt ny nd nc)
        have rhs: "norm_row L d r c
          = (if map_of (schema d) c = Some Number then fillna (Num 0) (blank (r c))
             else if map_of (schema d) c = Some Object then clean_text L (blank (r c))
             else blank (r c))"
          by (simp add: norm_row_def ny nd nc)
        show ?thesis
          unfolding lhs rhs using nd' absent by auto
      qed
    qed
  qed
  show "rows (process_data L d) = map (norm_row L d) (rows d)"
    unfolding r6 r5 r4 r3 r2 r1 m4' map_map comp_def cell by (rule refl)
qed













lemma clean_marker: "marker v \<Longrightarrow> clean_text L (blank v) = Str []"
  by (auto simp: marker_def blank_def clean_text_def replace_cell_def astype_str_def fillna_def
      cell_str_def)

text \<open>
  C1, as amended: after \<open>process_data\<close> on a table with distinct column names, no
  column of numeric dtype holds a missing value, and every cell of a column of object
  dtype is a string other than "nan", "NaN" and "None"; a cell of such a column that
  was missing or held one of the strings "", " ", "nan", "NaN", "None" holds the
  empty string. Nothing is said of a column of categorical dtype, nor of a string of
  blanks other than " ".
\<close>

theorem C1_no_missing_values:
  assumes dist: "distinct (columns df)"
  shows "(map_of (schema (process_data L df)) c = Some Number \<longrightarrow>
            (\<forall>r\<in>set (rows (process_data L df)). r c \<noteq> Null))
       \<and> (map_of (schema (process_data L df)) c = Some Object \<longrightarrow>
            (\<forall>r\<in>set (rows (process_data L df)).
                \<exists>s. r c = Str s \<and> s \<noteq> ''nan'' \<and> s \<noteq> ''NaN'' \<and> s \<noteq> ''None'')
            \<and> list_all2 (\<lambda>r r'. marker (r c) \<longrightarrow> r' c = Str [])
                 (rows df) (rows (process_data L df)))"
proof (intro conjI impI)
  assume n: "map_of (schema (process_data L df)) c = Some Number"
  then have nd: "norm_dtype df c = Some Number" by (simp add: process_data_obs(2)[OF dist])
  have "\<And>r. norm_row L df r c \<noteq> Null"
    using nd by (auto simp: norm_row_def norm_dtype_def fillna_def split: if_splits)
  then show "\<forall>r\<in>set (rows (process_data L df)). r c \<noteq> Null"
    by (auto simp: process_data_obs(3)[OF dist])
next
  assume "map_of (schema (process_data L df)) c = Some Object"
  then have nd: "norm_dtype df c = Some Object" by (simp add: process_data_obs(2)[OF dist])
  have t: "\<And>r. norm_row L df r c = clean_text L (blank (r c))"
    using nd by (auto simp: norm_row_def norm_dtype_def split: if_splits)
  show "\<forall>r\<in>set (rows (process_data L df)).
                \<exists>s. r c = Str s \<and> s \<noteq> ''nan'' \<and> s \<noteq> ''NaN'' \<and> s \<noteq> ''None''"
    using clean_text_Str by (auto simp: process_data_obs(3)[OF dist] t)
  show "list_all2 (\<lambda>r r'. marker (r c) \<longrightarrow> r' c = Str []) (rows df) (rows (process_data L df))"
    by (simp add: process_data_obs(3)[OF dist] list_all2_map2 t clean_marker list_all2_refl)
qed


lemma raw_visits_distinct: "distinct (columns raw_visits)"
  by (simp add: columns_def raw_visits_def)

lemma raw_visits_run:
  "column_values (process_data ascii_lib raw_visits) ''fecha_inspeccion'' = [Date 19783, Null]"
  "column_values (process_data ascii_lib raw_visits) ''cod_renipress'' = [Num 5060, Num 0]"
  "column_values (process_data ascii_lib raw_visits) ''sector'' = [Str [], Str []]"
  "column_values (process_data ascii_lib raw_visits) ''viv_positiva'' = [Num 0, Num 1]"
  "column_values (process_data ascii_lib raw_visits) ''year'' = [Num 2024, Num 0]"
  unfolding column_values_def process_data_obs(3)[OF raw_visits_distinct]
  by (simp_all add: norm_row_def raw_visits_def columns_def row_of_def date_columns_def
      critical_numeric_columns_def blank_def coerce_datetime_def coerce_numeric_def fillna_def
      year_cell_def clean_text_def replace_cell_def astype_str_def cell_str_def ascii_lib_def)

lemma raw_visits_dtypes:
  "map_of (schema (process_data ascii_lib raw_visits)) ''sector'' = Some Object"
  "map_of (schema (process_data ascii_lib raw_visits)) ''viv_positiva'' = Some Number"
  "map_of (schema (process_data ascii_lib raw_visits)) ''year'' = Some Number"
  unfolding process_data_obs(2)[OF raw_visits_distinct]
  by (simp_all add: norm_dtype_def raw_visits_def columns_def date_columns_def
      critical_numeric_columns_def)

theorem C1_no_missing_values_witness:
  "distinct (columns raw_visits)
   \<and> map_of (schema (process_data ascii_lib raw_visits)) ''viv_positiva'' = Some Number
   \<and> column_values (process_data ascii_lib raw_visits) ''viv_positiva'' = [Num 0, Num 1]
   \<and> map_of (schema (process_data ascii_lib raw_visits)) ''sector'' = Some Object
   \<and> column_values raw_visits ''sector'' = [Str ''None'', Str '' '']
   \<and> column_values (process_data ascii_lib raw_visits) ''sector'' = [Str [], Str []]"
proof -
  have c: "column_values raw_visits ''sector'' = [Str ''None'', Str '' '']"
    by (simp add: column_values_def raw_visits_def row_of_def)
  show ?thesis
    using C1_no_missing_values[OF raw_visits_distinct, of ascii_lib "''sector''"]
      C1_no_missing_values[OF raw_visits_distinct, of ascii_lib "''viv_positiva''"]
      raw_visits_distinct raw_visits_run raw_visits_dtypes c
    by simp
qed

text \<open>
  C1 as stated fails twice. A cell of two blanks is whitespace only and stays as it is:
  lines 148 and 181 to 185 replace the string " " alone. And in production a text column
  with few distinct values becomes categorical before \<open>process_data\<close> runs, so the loop
  over the columns of object dtype (line 178) passes it by and its missing value stays.
\<close>

theorem C1_whitespace_and_category_counterexample:
  "column_values padded ''sector'' = [Str ''  '']
   \<and> map_of (schema (init_data ascii_lib False padded)) ''sector'' = Some Object
   \<and> column_values (init_data ascii_lib False padded) ''sector'' = [Str ''  '']
   \<and> map_of (schema (init_data ascii_lib True sparse)) ''sector'' = Some Category
   \<and> column_values (init_data ascii_lib True sparse) ''sector''
       = [Str ''A'', Str ''A'', Str ''A'', Null]"
proof -
  have dp: "distinct (columns padded)" by (simp add: columns_def padded_def)
  have o: "optimize_for_production sparse = sparse\<lparr>schema := [(''sector'', Category)]\<rparr>"
    by (simp add: optimize_for_production_def Let_def sparse_def columns_def column_values_def
        row_of_def nunique_def)
  have ds: "distinct (columns (sparse\<lparr>schema := [(''sector'', Category)]\<rparr>))"
    by (simp add: columns_def)
  have a: "column_values padded ''sector'' = [Str ''  '']"
    by (simp add: column_values_def padded_def row_of_def)
  have b: "map_of (schema (init_data ascii_lib False padded)) ''sector'' = Some Object"
    unfolding init_data_def if_False process_data_obs(2)[OF dp]
    by (simp add: norm_dtype_def padded_def columns_def date_columns_def
        critical_numeric_columns_def)
  have c: "column_values (init_data ascii_lib False padded) ''sector'' = [Str ''  '']"
    unfolding init_data_def if_False column_values_def process_data_obs(3)[OF dp]
    by (simp add: norm_row_def padded_def columns_def row_of_def date_columns_def
        critical_numeric_columns_def blank_def clean_text_def replace_cell_def astype_str_def
        fillna_def cell_str_def)
  have d: "map_of (schema (init_data ascii_lib True sparse)) ''sector'' = Some Category"
    unfolding init_data_def if_True o process_data_obs(2)[OF ds]
    by (simp add: norm_dtype_def columns_def date_columns_def critical_numeric_columns_def)
  have e: "column_values (init_data ascii_lib True sparse) ''sector''
       = [Str ''A'', Str ''A'', Str ''A'', Null]"
    unfolding init_data_def if_True o column_values_def process_data_obs(3)[OF ds]
    by (simp add: norm_row_def sparse_def columns_def row_of_def date_columns_def
        critical_numeric_columns_def blank_def)
  show ?thesis using a b c d e by simp
qed


end
